theory Spec2Isabelle
  imports Main
begin

section \<open>The SAML authentication provider\<close>

text \<open>
  A shallow embedding of \<^verbatim>\<open>SAMLAuthenticationProvider\<close>
  (\<^verbatim>\<open>x-pack/plugins/canvas/public/components/refresh_control/index.js\<close>, second
  document of the file). Every method of the class is an \<^verbatim>\<open>async\<close> function that
  awaits its backend calls one after the other, so a call is modelled as a sequential
  function on an explicit world: the request object (whose \<^verbatim>\<open>headers.authorization\<close>
  the provider mutates) and the trace of log lines and backend calls made so far.
\<close>

subsection \<open>Strings of the request\<close>

text \<open>
  Header values reach the provider as strings whose code units are Latin-1 bytes, so a
  \<^typ>\<open>char\<close> is one code unit. \<^verbatim>\<open>\s\<close> of a JavaScript regular expression matches,
  among these, tab, line feed, vertical tab, form feed, carriage return, space and the
  no-break space.
\<close>

definition is_space :: "char \<Rightarrow> bool" where
  "is_space c = (of_char c \<in> {9, 10, 11, 12, 13, 32, 160 :: nat})"

text \<open>
  \<^verbatim>\<open>s.split(/\s+/)\<close>: the pieces of \<open>s\<close> between maximal runs of white space. A
  run at the start gives an empty first piece, a run at the end an empty last piece, and
  a string without white space (the empty one too) is its own single piece.
\<close>

function split_whitespace :: "string \<Rightarrow> string list" where
  "split_whitespace s =
     (case dropWhile (\<lambda>c. \<not> is_space c) s of
        [] \<Rightarrow> [s]
      | _ # rest \<Rightarrow> takeWhile (\<lambda>c. \<not> is_space c) s # split_whitespace (dropWhile is_space rest))"
  by pat_completeness auto

termination
proof (relation "measure length", goal_cases)
  case 1
  show ?case by simp
next
  case (2 s c rest)
  have "length (dropWhile is_space rest) \<le> length rest"
    by (rule length_dropWhile_le)
  moreover have "length (c # rest) \<le> length s"
    unfolding 2 [symmetric] by (rule length_dropWhile_le)
  ultimately show ?case by simp
qed

declare split_whitespace.simps [simp del]

text \<open>
  \<^verbatim>\<open>String.prototype.toLowerCase\<close> on Latin-1 code units: the letters A to Z and the
  accented capitals U+00C0 to U+00DE (the multiplication sign U+00D7 apart) move up by 32.
\<close>

definition lower_char :: "char \<Rightarrow> char" where
  "lower_char c =
     (let n = of_char c :: nat
      in if (65 \<le> n \<and> n \<le> 90) \<or> (192 \<le> n \<and> n \<le> 222 \<and> n \<noteq> 215)
         then char_of (n + 32) else c)"

definition toLowerCase :: "string \<Rightarrow> string" where
  "toLowerCase s = map lower_char s"

text \<open>A template literal renders a non-negative integer \<^verbatim>\<open>number\<close> in decimal.\<close>

fun string_of_nat :: "nat \<Rightarrow> string" where
  "string_of_nat n =
     (if n < 10 then [char_of (48 + n)]
      else string_of_nat (n div 10) @ [char_of (48 + n mod 10)])"

declare string_of_nat.simps [simp del]

text \<open>A string is truthy when it is defined and not empty.\<close>

fun truthy :: "string option \<Rightarrow> bool" where
  "truthy None = False"
| "truthy (Some s) = (s \<noteq> [])"

subsection \<open>Data model\<close>

text \<open>\<^verbatim>\<open>interface ProviderState\<close>: every field is optional.\<close>

record ProviderState =
  requestId :: "string option"
  nextURL :: "string option"
  accessToken :: "string option"
  refreshToken :: "string option"

text \<open>
  An error thrown by the backend client, or built by \<^verbatim>\<open>Boom.badRequest\<close>: the fields
  the provider reads are \<^verbatim>\<open>message\<close>, the status code and \<^verbatim>\<open>body.error.reason\<close>,
  each link of which may be missing.
\<close>

record error_cause =
  reason :: "string option"

record error_body =
  body_error :: "error_cause option"

record es_error =
  statusCode :: "int option"
  message :: string
  body :: "error_body option"

definition badRequest :: "string \<Rightarrow> es_error" where
  "badRequest msg = \<lparr>statusCode = Some 400, message = msg, body = None\<rparr>"

text \<open>
  Modelled from the spec: \<^verbatim>\<open>getErrorStatusCode\<close> is imported from
  \<^verbatim>\<open>../../errors\<close>, which is not among the sources; the spec's \<open>statusCode(e)\<close> reads
  the HTTP-like status code the error carries.
\<close>

definition getErrorStatusCode :: "es_error option \<Rightarrow> int option" where
  "getErrorStatusCode err = (case err of None \<Rightarrow> None | Some e \<Rightarrow> statusCode e)"

text \<open>The user object the backend returns is opaque to the provider.\<close>

datatype user = User string

text \<open>
  Modelled from the spec: \<^verbatim>\<open>AuthenticationResult\<close> and \<^verbatim>\<open>DeauthenticationResult\<close>
  are imported from sibling modules that are not among the sources; the spec gives them as
  tagged unions with the constructors \<^verbatim>\<open>notHandled()\<close>, \<^verbatim>\<open>succeeded(user, newState?)\<close>,
  \<^verbatim>\<open>failed(err)\<close>, \<^verbatim>\<open>redirectTo(url, newState?)\<close>, the predicates
  \<^verbatim>\<open>notHandled()\<close>, \<^verbatim>\<open>failed()\<close> and the accessor \<^verbatim>\<open>.error\<close>.
\<close>

datatype AuthenticationResult =
    NotHandled
  | Succeeded user "ProviderState option"
  | Failed es_error
  | Redirect string "ProviderState option"

fun notHandled :: "AuthenticationResult \<Rightarrow> bool" where
  "notHandled NotHandled = True"
| "notHandled _ = False"

fun failed :: "AuthenticationResult \<Rightarrow> bool" where
  "failed (Failed _) = True"
| "failed _ = False"

fun error_of :: "AuthenticationResult \<Rightarrow> es_error option" where
  "error_of (Failed e) = Some e"
| "error_of _ = None"

datatype DeauthenticationResult =
    DeauthNotHandled
  | DeauthRedirect string
  | DeauthFailed es_error

text \<open>
  The request, as far as the provider and its collaborators read it. \<^verbatim>\<open>payload\<close> and
  \<^verbatim>\<open>query\<close> are mappings when they are there at all; \<open>is_ajax\<close> says whether the
  request is an XHR/AJAX probe.
\<close>

record request =
  headers_authorization :: "string option"
  payload :: "(string \<rightharpoonup> string) option"
  query :: "(string \<rightharpoonup> string) option"
  url_path :: string
  url_search :: "string option"
  getBasePath :: string
  is_ajax :: bool

text \<open>
  Modelled from the spec: \<^verbatim>\<open>canRedirectRequest\<close> is imported from
  \<^verbatim>\<open>../../can_redirect_request\<close>, which is not among the sources; the spec makes it
  a boolean predicate of the request: the request is not an XHR/AJAX probe.
\<close>

definition canRedirectRequest :: "request \<Rightarrow> bool" where
  "canRedirectRequest r = (\<not> is_ajax r)"

text \<open>The responses of the backend calls.\<close>

record token_response =
  access_token :: string
  refresh_token :: string

record prepare_response =
  prepare_id :: string
  prepare_redirect :: string

record logout_response =
  logout_redirect :: "string option"

text \<open>
  The calls the provider makes on the cluster client:
  \<^verbatim>\<open>callWithRequest(request, 'shield.authenticate')\<close> with the request as it is at
  that moment, and \<^verbatim>\<open>callWithInternalUser\<close> with one of five endpoints and its body.
\<close>

datatype call =
    ShieldAuthenticate request
  | SamlPrepare string
  | SamlAuthenticate "string list" string
  | GetAccessToken string string
  | SamlLogout "string option" "string option"
  | SamlInvalidate string string

text \<open>
  The backend answers a call with a value or throws. It may keep state of its own (a
  refresh token is good for one use), so an answer depends on the calls made before it.
\<close>

record cluster =
  shield_authenticate :: "call list \<Rightarrow> request \<Rightarrow> es_error + user"
  shield_samlPrepare :: "call list \<Rightarrow> string \<Rightarrow> es_error + prepare_response"
  shield_samlAuthenticate :: "call list \<Rightarrow> string list \<Rightarrow> string \<Rightarrow> es_error + token_response"
  shield_getAccessToken :: "call list \<Rightarrow> string \<Rightarrow> string \<Rightarrow> es_error + token_response"
  shield_samlLogout :: "call list \<Rightarrow> string option \<Rightarrow> string option \<Rightarrow> es_error + logout_response"
  shield_samlInvalidate :: "call list \<Rightarrow> string \<Rightarrow> string \<Rightarrow> es_error + logout_response"

text \<open>
  \<^verbatim>\<open>interface ProviderOptions\<close>. The \<^verbatim>\<open>log\<close> sink is the trace of the world: every
  line is logged under the same tags \<^verbatim>\<open>['debug', 'security', 'saml']\<close>, so an event
  keeps the message only.
\<close>

record ProviderOptions =
  protocol :: string
  hostname :: string
  port :: nat
  basePath :: string
  client :: cluster

datatype event = Log string | Call call

record world =
  req :: request
  trace :: "event list"

fun calls_of :: "event list \<Rightarrow> call list" where
  "calls_of [] = []"
| "calls_of (Log _ # es) = calls_of es"
| "calls_of (Call c # es) = c # calls_of es"

definition log :: "string \<Rightarrow> world \<Rightarrow> world" where
  "log msg w = w\<lparr>trace := trace w @ [Log msg]\<rparr>"

definition record_call :: "call \<Rightarrow> world \<Rightarrow> world" where
  "record_call c w = w\<lparr>trace := trace w @ [Call c]\<rparr>"

definition callWithRequest :: "ProviderOptions \<Rightarrow> world \<Rightarrow> (es_error + user) \<times> world" where
  "callWithRequest options w =
     (shield_authenticate (client options) (calls_of (trace w)) (req w),
      record_call (ShieldAuthenticate (req w)) w)"

definition set_authorization :: "string \<Rightarrow> world \<Rightarrow> world" where
  "set_authorization v w = w\<lparr>req := (req w)\<lparr>headers_authorization := Some v\<rparr>\<rparr>"

definition delete_authorization :: "world \<Rightarrow> world" where
  "delete_authorization w = w\<lparr>req := (req w)\<lparr>headers_authorization := None\<rparr>\<rparr>"

text \<open>
  \<^verbatim>\<open>callWithInternalUser(endpoint, { body })\<close>, one definition for each endpoint the
  provider uses.
\<close>

definition samlPrepare :: "ProviderOptions \<Rightarrow> string \<Rightarrow> world \<Rightarrow> (es_error + prepare_response) \<times> world" where
  "samlPrepare options acs w =
     (shield_samlPrepare (client options) (calls_of (trace w)) acs,
      record_call (SamlPrepare acs) w)"

definition samlAuthenticate ::
  "ProviderOptions \<Rightarrow> string list \<Rightarrow> string \<Rightarrow> world \<Rightarrow> (es_error + token_response) \<times> world" where
  "samlAuthenticate options ids content w =
     (shield_samlAuthenticate (client options) (calls_of (trace w)) ids content,
      record_call (SamlAuthenticate ids content) w)"

definition getAccessToken ::
  "ProviderOptions \<Rightarrow> string \<Rightarrow> string \<Rightarrow> world \<Rightarrow> (es_error + token_response) \<times> world" where
  "getAccessToken options grant_type token w =
     (shield_getAccessToken (client options) (calls_of (trace w)) grant_type token,
      record_call (GetAccessToken grant_type token) w)"

definition samlLogout ::
  "ProviderOptions \<Rightarrow> string option \<Rightarrow> string option \<Rightarrow> world \<Rightarrow> (es_error + logout_response) \<times> world" where
  "samlLogout options token refresh w =
     (shield_samlLogout (client options) (calls_of (trace w)) token refresh,
      record_call (SamlLogout token refresh) w)"

definition samlInvalidate ::
  "ProviderOptions \<Rightarrow> string \<Rightarrow> string \<Rightarrow> world \<Rightarrow> (es_error + logout_response) \<times> world" where
  "samlInvalidate options queryString acs w =
     (shield_samlInvalidate (client options) (calls_of (trace w)) queryString acs,
      record_call (SamlInvalidate queryString acs) w)"

subsection \<open>Classifiers\<close>

text \<open>
  \<^verbatim>\<open>isAccessTokenExpiredError(err?)\<close>: the chain
  \<^verbatim>\<open>err && err.body && err.body.error && err.body.error.reason === '...'\<close> is
  truthy exactly when every link is there and the reason is the given text.
\<close>

definition isAccessTokenExpiredError :: "es_error option \<Rightarrow> bool" where
  "isAccessTokenExpiredError err =
     (let errorStatusCode = getErrorStatusCode err
      in errorStatusCode = Some 401 \<or>
         (errorStatusCode = Some 500 \<and>
          (case err of
             None \<Rightarrow> False
           | Some e \<Rightarrow>
               (case body e of
                  None \<Rightarrow> False
                | Some b \<Rightarrow>
                    (case body_error b of
                       None \<Rightarrow> False
                     | Some c \<Rightarrow> reason c = Some ''token document is missing and must be present'')))))"

definition isSAMLResponsePayload :: "(string \<rightharpoonup> string) option \<Rightarrow> bool" where
  "isSAMLResponsePayload p = (case p of None \<Rightarrow> False | Some m \<Rightarrow> truthy (m ''SAMLResponse''))"

definition isSAMLRequestQuery :: "(string \<rightharpoonup> string) option \<Rightarrow> bool" where
  "isSAMLRequestQuery q = (case q of None \<Rightarrow> False | Some m \<Rightarrow> truthy (m ''SAMLRequest''))"

text \<open>
  \<^verbatim>\<open>request.payload.SAMLResponse\<close>, read only after \<open>isSAMLResponsePayload\<close> has held,
  where it is a non-empty string.
\<close>

definition payload_SAMLResponse :: "request \<Rightarrow> string" where
  "payload_SAMLResponse r =
     (case payload r of
        None \<Rightarrow> []
      | Some m \<Rightarrow> (case m ''SAMLResponse'' of None \<Rightarrow> [] | Some s \<Rightarrow> s))"

subsection \<open>The provider\<close>

definition getACS :: "ProviderOptions \<Rightarrow> string" where
  "getACS options =
     protocol options @ ''://'' @ hostname options @ '':'' @ string_of_nat (port options) @
     basePath options @ ''/api/security/v1/saml''"

definition authenticateViaHandshake :: "ProviderOptions \<Rightarrow> world \<Rightarrow> AuthenticationResult \<times> world" where
  "authenticateViaHandshake options w0 =
     (let w1 = log ''Trying to initiate SAML handshake.'' w0
      in if \<not> canRedirectRequest (req w1) then
           (NotHandled, log ''SAML handshake can not be initiated by AJAX requests.'' w1)
         else
           (case samlPrepare options (getACS options) w1 of
              (Inr resp, w2) \<Rightarrow>
                (Redirect (prepare_redirect resp)
                   (Some \<lparr>requestId = Some (prepare_id resp),
                          nextURL = Some (getBasePath (req w2) @ url_path (req w2)),
                          accessToken = None, refreshToken = None\<rparr>),
                 log ''Redirecting to Identity Provider with SAML request.'' w2)
            | (Inl err, w2) \<Rightarrow>
                (Failed err, log (''Failed to initiate SAML handshake: '' @ message err) w2)))"

text \<open>
  \<^verbatim>\<open>authenticateViaHeader\<close> returns the result together with the flag
  \<^verbatim>\<open>headerNotRecognized\<close>. \<^verbatim>\<open>split\<close> never returns an empty array for this
  pattern (\<open>split_whitespace_not_Nil\<close> below), so its element 0 is always there.
\<close>

definition authenticateViaHeader ::
  "ProviderOptions \<Rightarrow> world \<Rightarrow> (AuthenticationResult \<times> bool) \<times> world" where
  "authenticateViaHeader options w0 =
     (let w1 = log ''Trying to authenticate via header.'' w0;
          authorization = headers_authorization (req w1)
      in if \<not> truthy authorization then
           ((NotHandled, False), log ''Authorization header is not presented.'' w1)
         else
           (let authenticationSchema = hd (split_whitespace (case authorization of Some a \<Rightarrow> a | None \<Rightarrow> []))
            in if toLowerCase authenticationSchema \<noteq> ''bearer'' then
                 ((NotHandled, True),
                  log (''Unsupported authentication schema: '' @ authenticationSchema) w1)
               else
                 (case callWithRequest options w1 of
                    (Inr user, w2) \<Rightarrow>
                      ((Succeeded user None, False),
                       log ''Request has been authenticated via header.'' w2)
                  | (Inl err, w2) \<Rightarrow>
                      ((Failed err, False),
                       log (''Failed to authenticate request via header: '' @ message err) w2))))"

text \<open>\<^verbatim>\<open>a || b\<close> on an optional string and a string.\<close>

fun or_else :: "string option \<Rightarrow> string \<Rightarrow> string" where
  "or_else None b = b"
| "or_else (Some a) b = (if a = [] then b else a)"

text \<open>\<^verbatim>\<open>stateRequestId ? [stateRequestId] : []\<close>.\<close>

fun ids_of :: "string option \<Rightarrow> string list" where
  "ids_of None = []"
| "ids_of (Some i) = (if i = [] then [] else [i])"

definition authenticateViaPayload ::
  "ProviderOptions \<Rightarrow> ProviderState option \<Rightarrow> world \<Rightarrow> AuthenticationResult \<times> world" where
  "authenticateViaPayload options state w0 =
     (let w1 = log ''Trying to authenticate via SAML response payload.'' w0
      in if \<not> isSAMLResponsePayload (payload (req w1)) then
           (NotHandled, log ''SAML response payload is not found.'' w1)
         else
           (let (stateRequestId, stateRedirectURL) =
                  (case state of
                     Some s \<Rightarrow> (requestId s, nextURL s)
                   | None \<Rightarrow> (Some [], Some []))
            in if state \<noteq> None \<and> (\<not> truthy stateRequestId \<or> \<not> truthy stateRedirectURL) then
                 (let msg = ''SAML response state does not have corresponding request id or redirect URL.''
                  in (Failed (badRequest msg), log msg w1))
               else
                 (let w2 = (if truthy stateRequestId
                            then log ''Authentication has been previously initiated by Kibana.'' w1
                            else log ''Authentication has been initiated by Identity Provider.'' w1)
                  in case samlAuthenticate options (ids_of stateRequestId)
                            (payload_SAMLResponse (req w2)) w2 of
                       (Inr resp, w3) \<Rightarrow>
                         (Redirect (or_else stateRedirectURL (basePath options @ ''/''))
                            (Some \<lparr>requestId = None, nextURL = None,
                                   accessToken = Some (access_token resp),
                                   refreshToken = Some (refresh_token resp)\<rparr>),
                          log ''Request has been authenticated via SAML response.'' w3)
                     | (Inl err, w3) \<Rightarrow>
                         (Failed err,
                          log (''Failed to authenticate request via SAML response: '' @ message err) w3))))"

text \<open>
  \<^verbatim>\<open>authenticateViaState\<close>: the header is set before the call and deleted only in the
  \<^verbatim>\<open>catch\<close> branch.
\<close>

definition authenticateViaState ::
  "ProviderOptions \<Rightarrow> ProviderState \<Rightarrow> world \<Rightarrow> AuthenticationResult \<times> world" where
  "authenticateViaState options state w0 =
     (let w1 = log ''Trying to authenticate via state.'' w0
      in case accessToken state of
           None \<Rightarrow> (NotHandled, log ''Access token is not found in state.'' w1)
         | Some token \<Rightarrow>
             if token = [] then (NotHandled, log ''Access token is not found in state.'' w1)
             else
               (let w2 = set_authorization (''Bearer '' @ token) w1
                in case callWithRequest options w2 of
                     (Inr user, w3) \<Rightarrow>
                       (Succeeded user None, log ''Request has been authenticated via state.'' w3)
                   | (Inl err, w3) \<Rightarrow>
                       (Failed err,
                        delete_authorization
                          (log (''Failed to authenticate request via state: '' @ message err) w3))))"

text \<open>
  The \<^verbatim>\<open>try\<close> block of \<^verbatim>\<open>authenticateViaRefreshToken\<close>: either of its two awaited
  calls may throw, which leaves the block with the error.
\<close>

definition refresh_try ::
  "ProviderOptions \<Rightarrow> string \<Rightarrow> world \<Rightarrow> (es_error + AuthenticationResult) \<times> world" where
  "refresh_try options token w1 =
     (case getAccessToken options ''refresh_token'' token w1 of
        (Inl err, w2) \<Rightarrow> (Inl err, w2)
      | (Inr resp, w2) \<Rightarrow>
          (let w3 = log ''Access token has been successfully refreshed.'' w2;
               w4 = set_authorization (''Bearer '' @ access_token resp) w3
           in case callWithRequest options w4 of
                (Inl err, w5) \<Rightarrow> (Inl err, w5)
              | (Inr user, w5) \<Rightarrow>
                  (Inr (Succeeded user
                          (Some \<lparr>requestId = None, nextURL = None,
                                 accessToken = Some (access_token resp),
                                 refreshToken = Some (refresh_token resp)\<rparr>)),
                   log ''Request has been authenticated via refreshed token.'' w5)))"

text \<open>The \<^verbatim>\<open>catch\<close> block of \<^verbatim>\<open>authenticateViaRefreshToken\<close>.\<close>

definition refresh_catch ::
  "ProviderOptions \<Rightarrow> es_error \<Rightarrow> world \<Rightarrow> AuthenticationResult \<times> world" where
  "refresh_catch options err w5 =
     (let w6 = delete_authorization (log (''Failed to refresh access token: '' @ message err) w5)
      in if getErrorStatusCode (Some err) = Some 400 then
           (if canRedirectRequest (req w6) then
              authenticateViaHandshake options
                (log ''Both access and refresh tokens are expired. Re-initiating SAML handshake.'' w6)
            else (Failed (badRequest ''Both access and refresh tokens are expired.''), w6))
         else (Failed err, w6))"

definition authenticateViaRefreshToken ::
  "ProviderOptions \<Rightarrow> ProviderState \<Rightarrow> world \<Rightarrow> AuthenticationResult \<times> world" where
  "authenticateViaRefreshToken options state w0 =
     (let w1 = log ''Trying to refresh access token.'' w0
      in case refreshToken state of
           None \<Rightarrow> (NotHandled, log ''Refresh token is not found in state.'' w1)
         | Some token \<Rightarrow>
             if token = [] then (NotHandled, log ''Refresh token is not found in state.'' w1)
             else
               (case refresh_try options token w1 of
                  (Inr result, w5) \<Rightarrow> (result, w5)
                | (Inl err, w5) \<Rightarrow> refresh_catch options err w5))"

text \<open>
  \<^verbatim>\<open>authenticate(request, state?)\<close>. The three \<^verbatim>\<open>if\<close> statements that reassign
  \<^verbatim>\<open>authenticationResult\<close> are the three stages below.
\<close>

definition state_stage ::
  "ProviderOptions \<Rightarrow> ProviderState option \<Rightarrow> AuthenticationResult \<times> world \<Rightarrow> AuthenticationResult \<times> world" where
  "state_stage options state rw =
     (case rw of (authenticationResult, w) \<Rightarrow>
        (case state of
           None \<Rightarrow> (authenticationResult, w)
         | Some s \<Rightarrow>
             if notHandled authenticationResult then
               (case authenticateViaState options s w of
                  (viaState, w') \<Rightarrow>
                    if failed viaState \<and> isAccessTokenExpiredError (error_of viaState)
                    then authenticateViaRefreshToken options s w'
                    else (viaState, w'))
             else (authenticationResult, w)))"

definition payload_stage ::
  "ProviderOptions \<Rightarrow> ProviderState option \<Rightarrow> AuthenticationResult \<times> world \<Rightarrow> AuthenticationResult \<times> world" where
  "payload_stage options state rw =
     (case rw of (authenticationResult, w) \<Rightarrow>
        if notHandled authenticationResult then authenticateViaPayload options state w
        else (authenticationResult, w))"

definition handshake_stage ::
  "ProviderOptions \<Rightarrow> AuthenticationResult \<times> world \<Rightarrow> AuthenticationResult \<times> world" where
  "handshake_stage options rw =
     (case rw of (authenticationResult, w) \<Rightarrow>
        if notHandled authenticationResult then authenticateViaHandshake options w
        else (authenticationResult, w))"

definition authenticate ::
  "ProviderOptions \<Rightarrow> ProviderState option \<Rightarrow> world \<Rightarrow> AuthenticationResult \<times> world" where
  "authenticate options state w0 =
     (let w1 = log (''Trying to authenticate user request to '' @ url_path (req w0) @ ''.'') w0
      in case authenticateViaHeader options w1 of
           ((authenticationResult, headerNotRecognized), w2) \<Rightarrow>
             if headerNotRecognized then (authenticationResult, w2)
             else handshake_stage options
                    (payload_stage options state
                       (state_stage options state (authenticationResult, w2))))"

text \<open>
  \<^verbatim>\<open>deauthenticate(request, state?)\<close>. \<^verbatim>\<open>request.url.search.slice(1)\<close> drops the
  leading question mark; \<^verbatim>\<open>redirect != null\<close> holds for every string, the empty one
  too.
\<close>

definition state_accessToken :: "ProviderState option \<Rightarrow> string option" where
  "state_accessToken state = (case state of None \<Rightarrow> None | Some s \<Rightarrow> accessToken s)"

definition state_refreshToken :: "ProviderState option \<Rightarrow> string option" where
  "state_refreshToken state = (case state of None \<Rightarrow> None | Some s \<Rightarrow> refreshToken s)"

definition callLogout ::
  "ProviderOptions \<Rightarrow> ProviderState option \<Rightarrow> world \<Rightarrow> (es_error + logout_response) \<times> world" where
  "callLogout options state w =
     (if isSAMLRequestQuery (query (req w)) then
        (let w1 = log ''Logout has been initiated by the Identity Provider.'' w
         in samlInvalidate options
              (case url_search (req w1) of
                 None \<Rightarrow> []
               | Some search \<Rightarrow> drop 1 search)
              (getACS options) w1)
      else
        (let w1 = log ''Logout has been initiated by the user.'' w
         in samlLogout options (state_accessToken state) (state_refreshToken state) w1))"

definition deauthenticate ::
  "ProviderOptions \<Rightarrow> ProviderState option \<Rightarrow> world \<Rightarrow> DeauthenticationResult \<times> world" where
  "deauthenticate options state w0 =
     (let w1 = log (''Trying to deauthenticate user via '' @ url_path (req w0) @ ''.'') w0
      in if \<not> truthy (state_accessToken state) \<and> \<not> isSAMLRequestQuery (query (req w1)) then
           (DeauthNotHandled,
            log ''There is neither access token nor SAML session to invalidate.'' w1)
         else
           (case callLogout options state w1 of
              (Inr resp, w2) \<Rightarrow>
                (let w3 = log ''User session has been successfully invalidated.'' w2
                 in case logout_redirect resp of
                      Some redirect \<Rightarrow>
                        (DeauthRedirect redirect,
                         log ''Redirecting user to Identity Provider to complete logout.'' w3)
                    | None \<Rightarrow> (DeauthRedirect ''/logged_out'', w3))
            | (Inl err, w2) \<Rightarrow>
                (DeauthFailed err, log (''Failed to deauthenticate user: '' @ message err) w2)))"

subsection \<open>Observations on errors and traces\<close>

text \<open>\<^verbatim>\<open>e.body.error.reason\<close>, undefined when a link of the path is missing.\<close>

definition error_reason :: "es_error \<Rightarrow> string option" where
  "error_reason e =
     (case body e of
        None \<Rightarrow> None
      | Some b \<Rightarrow> (case body_error b of None \<Rightarrow> None | Some c \<Rightarrow> reason c))"

fun is_GetAccessToken :: "call \<Rightarrow> bool" where
  "is_GetAccessToken (GetAccessToken _ _) = True"
| "is_GetAccessToken _ = False"

text \<open>
  The refresh strategy fails with \<open>err\<close>: the backend rejects the refresh token with
  it, or issues a new pair and then rejects the request that carries the new access token.
\<close>

definition refresh_fails_with :: "ProviderOptions \<Rightarrow> string \<Rightarrow> world \<Rightarrow> es_error \<Rightarrow> bool" where
  "refresh_fails_with options token w err =
     (case shield_getAccessToken (client options) (calls_of (trace w)) ''refresh_token'' token of
        Inl e \<Rightarrow> e = err
      | Inr resp \<Rightarrow>
          shield_authenticate (client options)
            (calls_of (trace w) @ [GetAccessToken ''refresh_token'' token])
            ((req w)\<lparr>headers_authorization := Some (''Bearer '' @ access_token resp)\<rparr>) = Inl err)"

subsection \<open>Example inputs\<close>

definition error_with_status :: "int \<Rightarrow> es_error" where
  "error_with_status n = \<lparr>statusCode = Some n, message = ''backend error'', body = None\<rparr>"

text \<open>
  A backend that knows the access token \<^verbatim>\<open>A\<close>, answers 401 to the token
  \<^verbatim>\<open>expired\<close> and 403 to anything else, exchanges the refresh token \<^verbatim>\<open>R\<close> and
  rejects every other one with 400.
\<close>

definition ex_cluster :: cluster where
  "ex_cluster =
     \<lparr>shield_authenticate = (\<lambda>calls r.
          if headers_authorization r = Some ''Bearer A'' then Inr (User ''U'')
          else if headers_authorization r = Some ''Bearer expired'' then Inl (error_with_status 401)
          else Inl (error_with_status 403)),
      shield_samlPrepare = (\<lambda>calls acs.
          Inr \<lparr>prepare_id = ''req-1'', prepare_redirect = ''https://idp/sso''\<rparr>),
      shield_samlAuthenticate = (\<lambda>calls ids content.
          Inr \<lparr>access_token = ''A'', refresh_token = ''R''\<rparr>),
      shield_getAccessToken = (\<lambda>calls grant_type token.
          if token = ''R'' then Inr \<lparr>access_token = ''A'', refresh_token = ''R2''\<rparr>
          else Inl (error_with_status 400)),
      shield_samlLogout = (\<lambda>calls token refresh. Inr \<lparr>logout_redirect = None\<rparr>),
      shield_samlInvalidate = (\<lambda>calls queryString acs.
          Inr \<lparr>logout_redirect = Some ''https://idp/slo''\<rparr>)\<rparr>"

definition ex_options :: ProviderOptions where
  "ex_options =
     \<lparr>protocol = ''https'', hostname = ''kibana'', port = 5601, basePath = ''/kbn'',
      client = ex_cluster\<rparr>"

text \<open>An AJAX request without header, body or query.\<close>

definition ex_request :: request where
  "ex_request =
     \<lparr>headers_authorization = None, payload = None, query = None, url_path = ''/app/home'',
      url_search = None, getBasePath = ''/kbn'', is_ajax = True\<rparr>"

definition ex_world :: "request \<Rightarrow> world" where
  "ex_world r = \<lparr>req = r, trace = []\<rparr>"

definition ex_state :: "string option \<Rightarrow> string option \<Rightarrow> ProviderState" where
  "ex_state access refresh =
     \<lparr>requestId = None, nextURL = None, accessToken = access, refreshToken = refresh\<rparr>"

definition ex_handshake_state :: ProviderState where
  "ex_handshake_state =
     \<lparr>requestId = Some ''req-1'', nextURL = Some ''/app/home'', accessToken = None,
      refreshToken = None\<rparr>"

text \<open>The same request as the Assertion Consumer Service receives it, with a SAML response.\<close>

definition ex_acs_request :: request where
  "ex_acs_request = ex_request\<lparr>payload := Some [''SAMLResponse'' \<mapsto> ''PHNhbWw+'']\<rparr>"

text \<open>A logout request the Identity Provider sends, and two more backend errors.\<close>

definition ex_slo_request :: request where
  "ex_slo_request =
     ex_request\<lparr>query := Some [''SAMLRequest'' \<mapsto> ''PHNsbz4=''],
                url_search := Some ''?SAMLRequest=PHNsbz4%3D&SigAlg=rsa''\<rparr>"

definition ex_missing_token_document :: es_error where
  "ex_missing_token_document =
     \<lparr>statusCode = Some 500, message = ''internal server error'',
      body = Some \<lparr>body_error =
        Some \<lparr>reason = Some ''token document is missing and must be present''\<rparr>\<rparr>\<rparr>"

section \<open>Basic facts\<close>

subsection \<open>Splitting on white space\<close>

lemma split_whitespace_not_Nil: "split_whitespace s \<noteq> []"
  by (subst split_whitespace.simps) (simp split: list.splits)

lemma hd_split_whitespace: "hd (split_whitespace s) = takeWhile (\<lambda>c. \<not> is_space c) s"
proof (cases "dropWhile (\<lambda>c. \<not> is_space c) s")
  case Nil
  have "split_whitespace s = [s]"
    by (subst split_whitespace.simps) (simp only: Nil list.case)
  moreover have "takeWhile (\<lambda>c. \<not> is_space c) s = s"
    using Nil by (metis takeWhile_dropWhile_id append_Nil2)
  ultimately show ?thesis by (simp only: list.sel)
next
  case (Cons c rest)
  have "split_whitespace s =
          takeWhile (\<lambda>c. \<not> is_space c) s # split_whitespace (dropWhile is_space rest)"
    by (subst split_whitespace.simps) (simp only: Cons list.case)
  then show ?thesis by simp
qed

text \<open>Facts that let the simplifier run the string functions on literals.\<close>

lemmas string_eval = toLowerCase_def lower_char_def char_of_def bit_Suc_0_iff is_space_def
  hd_split_whitespace string_of_nat.simps

subsection \<open>The world\<close>

lemma calls_of_append [simp]: "calls_of (xs @ ys) = calls_of xs @ calls_of ys"
  by (induction xs rule: calls_of.induct) simp_all

lemma req_log [simp]: "req (log m w) = req w"
  and trace_log [simp]: "trace (log m w) = trace w @ [Log m]"
  and req_record_call [simp]: "req (record_call c w) = req w"
  and trace_record_call [simp]: "trace (record_call c w) = trace w @ [Call c]"
  and req_set_authorization [simp]:
    "req (set_authorization v w) = (req w)\<lparr>headers_authorization := Some v\<rparr>"
  and trace_set_authorization [simp]: "trace (set_authorization v w) = trace w"
  and req_delete_authorization [simp]:
    "req (delete_authorization w) = (req w)\<lparr>headers_authorization := None\<rparr>"
  and trace_delete_authorization [simp]: "trace (delete_authorization w) = trace w"
  by (simp_all add: log_def record_call_def set_authorization_def delete_authorization_def)

lemma canRedirectRequest_authorization [simp]:
  "canRedirectRequest (r\<lparr>headers_authorization := h\<rparr>) = canRedirectRequest r"
  by (simp add: canRedirectRequest_def)

lemma truthy_iff: "truthy x \<longleftrightarrow> (\<exists>s. x = Some s \<and> s \<noteq> [])"
  by (cases x) simp_all

subsection \<open>The strategies, case by case\<close>

lemmas ex_inputs = ex_options_def ex_cluster_def ex_request_def ex_world_def ex_state_def
  ex_handshake_state_def error_with_status_def

lemma authenticateViaHeader_absent:
  "\<not> truthy (headers_authorization (req w)) \<Longrightarrow>
   authenticateViaHeader options w =
     ((NotHandled, False),
      log ''Authorization header is not presented.'' (log ''Trying to authenticate via header.'' w))"
  by (simp add: authenticateViaHeader_def Let_def)

lemma authenticateViaHeader_unrecognised:
  "headers_authorization (req w) = Some a \<Longrightarrow> a \<noteq> [] \<Longrightarrow>
   toLowerCase (hd (split_whitespace a)) \<noteq> ''bearer'' \<Longrightarrow>
   authenticateViaHeader options w =
     ((NotHandled, True),
      log (''Unsupported authentication schema: '' @ hd (split_whitespace a))
        (log ''Trying to authenticate via header.'' w))"
  by (simp add: authenticateViaHeader_def Let_def)

lemma authenticate_unrecognised:
  assumes "headers_authorization (req w0) = Some a" and "a \<noteq> []"
    and "toLowerCase (hd (split_whitespace a)) \<noteq> ''bearer''"
  shows "authenticate options state w0 =
     (NotHandled,
      w0\<lparr>trace := trace w0 @
        [Log (''Trying to authenticate user request to '' @ url_path (req w0) @ ''.''),
         Log ''Trying to authenticate via header.'',
         Log (''Unsupported authentication schema: '' @ hd (split_whitespace a))]\<rparr>)"
proof -
  let ?w1 = "log (''Trying to authenticate user request to '' @ url_path (req w0) @ ''.'') w0"
  have "headers_authorization (req ?w1) = Some a"
    using assms(1) by simp
  from authenticateViaHeader_unrecognised [OF this assms(2,3)]
  show ?thesis
    by (simp add: authenticate_def Let_def log_def)
qed

lemma authenticate_header_absent:
  assumes "\<not> truthy (headers_authorization (req w0))"
  shows "authenticate options state w0 =
     handshake_stage options (payload_stage options state (state_stage options state
       (NotHandled,
        log ''Authorization header is not presented.''
          (log ''Trying to authenticate via header.''
            (log (''Trying to authenticate user request to '' @ url_path (req w0) @ ''.'') w0)))))"
proof -
  let ?w1 = "log (''Trying to authenticate user request to '' @ url_path (req w0) @ ''.'') w0"
  have "\<not> truthy (headers_authorization (req ?w1))"
    using assms by simp
  from authenticateViaHeader_absent [OF this]
  show ?thesis by (simp add: authenticate_def Let_def)
qed

lemma authenticateViaState_no_token:
  "\<not> truthy (accessToken s) \<Longrightarrow>
   authenticateViaState options s w =
     (NotHandled,
      log ''Access token is not found in state.'' (log ''Trying to authenticate via state.'' w))"
  by (cases "accessToken s") (simp_all add: authenticateViaState_def Let_def)

lemma authenticateViaState_token:
  assumes "accessToken s = Some a" and "a \<noteq> []"
  shows "authenticateViaState options s w =
     (case shield_authenticate (client options) (calls_of (trace w))
             ((req w)\<lparr>headers_authorization := Some (''Bearer '' @ a)\<rparr>) of
        Inr user \<Rightarrow>
          (Succeeded user None,
           log ''Request has been authenticated via state.''
             (record_call (ShieldAuthenticate ((req w)\<lparr>headers_authorization := Some (''Bearer '' @ a)\<rparr>))
               (set_authorization (''Bearer '' @ a) (log ''Trying to authenticate via state.'' w))))
      | Inl err \<Rightarrow>
          (Failed err,
           delete_authorization
             (log (''Failed to authenticate request via state: '' @ message err)
               (record_call (ShieldAuthenticate ((req w)\<lparr>headers_authorization := Some (''Bearer '' @ a)\<rparr>))
                 (set_authorization (''Bearer '' @ a) (log ''Trying to authenticate via state.'' w))))))"
  using assms
  by (simp add: authenticateViaState_def Let_def callWithRequest_def split: sum.splits)

lemma state_stage_no_token:
  "\<not> truthy (accessToken s) \<Longrightarrow>
   state_stage options (Some s) (NotHandled, w) =
     (NotHandled,
      log ''Access token is not found in state.'' (log ''Trying to authenticate via state.'' w))"
  by (simp add: state_stage_def authenticateViaState_no_token)

lemma state_stage_no_state: "state_stage options None rw = rw"
  by (cases rw) (simp add: state_stage_def)

lemma later_stages_skip:
  "\<not> notHandled r \<Longrightarrow> payload_stage options state (r, w) = (r, w)"
  "\<not> notHandled r \<Longrightarrow> handshake_stage options (r, w) = (r, w)"
  by (simp_all add: payload_stage_def handshake_stage_def)

lemma authenticate_without_token:
  assumes "\<not> truthy (headers_authorization (req w0))" and "\<not> truthy (accessToken s)"
  shows "authenticate options (Some s) w0 =
     handshake_stage options (authenticateViaPayload options (Some s)
       (w0\<lparr>trace := trace w0 @
          [Log (''Trying to authenticate user request to '' @ url_path (req w0) @ ''.''),
           Log ''Trying to authenticate via header.'',
           Log ''Authorization header is not presented.'',
           Log ''Trying to authenticate via state.'',
           Log ''Access token is not found in state.'']\<rparr>))"
  by (simp add: authenticate_header_absent [OF assms(1)] state_stage_no_token [OF assms(2)]
        payload_stage_def log_def)

lemma authenticate_without_state:
  assumes "\<not> truthy (headers_authorization (req w0))"
  shows "authenticate options None w0 =
     handshake_stage options (authenticateViaPayload options None
       (w0\<lparr>trace := trace w0 @
          [Log (''Trying to authenticate user request to '' @ url_path (req w0) @ ''.''),
           Log ''Trying to authenticate via header.'',
           Log ''Authorization header is not presented.'']\<rparr>))"
  by (simp add: authenticate_header_absent [OF assms] state_stage_no_state
        payload_stage_def log_def)

lemma handshake_calls:
  "calls_of (trace (snd (authenticateViaHandshake options w))) =
     calls_of (trace w) @ (if canRedirectRequest (req w) then [SamlPrepare (getACS options)] else [])"
  by (simp add: authenticateViaHandshake_def Let_def samlPrepare_def split: sum.splits)

lemma handshake_stage_calls:
  "calls_of (trace (snd (handshake_stage options (r, w)))) =
     calls_of (trace w) @
       (if notHandled r \<and> canRedirectRequest (req w) then [SamlPrepare (getACS options)] else [])"
  by (simp add: handshake_stage_def handshake_calls)

lemma handshake_req: "req (snd (authenticateViaHandshake options w)) = req w"
  by (simp add: authenticateViaHandshake_def Let_def samlPrepare_def split: sum.splits)

lemma payload_req: "req (snd (authenticateViaPayload options state w)) = req w"
  by (simp add: authenticateViaPayload_def Let_def samlAuthenticate_def split: sum.splits prod.splits)

lemma payload_absent:
  "\<not> isSAMLResponsePayload (payload (req w)) \<Longrightarrow>
   authenticateViaPayload options state w =
     (NotHandled,
      log ''SAML response payload is not found.''
        (log ''Trying to authenticate via SAML response payload.'' w))"
  by (simp add: authenticateViaPayload_def Let_def)

lemma payload_corrupt_state:
  assumes "isSAMLResponsePayload (payload (req w))"
    and "\<not> truthy (requestId s) \<or> \<not> truthy (nextURL s)"
  shows "authenticateViaPayload options (Some s) w =
     (Failed (badRequest ''SAML response state does not have corresponding request id or redirect URL.''),
      log ''SAML response state does not have corresponding request id or redirect URL.''
        (log ''Trying to authenticate via SAML response payload.'' w))"
  using assms by (auto simp add: authenticateViaPayload_def Let_def)

lemma payload_idp_initiated:
  assumes "payload (req w) = Some m" and "m ''SAMLResponse'' = Some x" and "x \<noteq> []"
  shows "authenticateViaPayload options None w =
     (case shield_samlAuthenticate (client options) (calls_of (trace w)) [] x of
        Inr resp \<Rightarrow>
          (Redirect (basePath options @ ''/'')
             (Some \<lparr>requestId = None, nextURL = None, accessToken = Some (access_token resp),
                    refreshToken = Some (refresh_token resp)\<rparr>),
           log ''Request has been authenticated via SAML response.''
             (record_call (SamlAuthenticate [] x)
               (log ''Authentication has been initiated by Identity Provider.''
                 (log ''Trying to authenticate via SAML response payload.'' w))))
      | Inl err \<Rightarrow>
          (Failed err,
           log (''Failed to authenticate request via SAML response: '' @ message err)
             (record_call (SamlAuthenticate [] x)
               (log ''Authentication has been initiated by Identity Provider.''
                 (log ''Trying to authenticate via SAML response payload.'' w)))))"
  using assms
  by (simp add: authenticateViaPayload_def Let_def samlAuthenticate_def isSAMLResponsePayload_def
        payload_SAMLResponse_def split: sum.splits)

lemma payload_sp_initiated:
  assumes "payload (req w) = Some m" and "m ''SAMLResponse'' = Some x" and "x \<noteq> []"
    and "requestId s = Some i" and "i \<noteq> []" and "nextURL s = Some u" and "u \<noteq> []"
  shows "authenticateViaPayload options (Some s) w =
     (case shield_samlAuthenticate (client options) (calls_of (trace w)) [i] x of
        Inr resp \<Rightarrow>
          (Redirect u
             (Some \<lparr>requestId = None, nextURL = None, accessToken = Some (access_token resp),
                    refreshToken = Some (refresh_token resp)\<rparr>),
           log ''Request has been authenticated via SAML response.''
             (record_call (SamlAuthenticate [i] x)
               (log ''Authentication has been previously initiated by Kibana.''
                 (log ''Trying to authenticate via SAML response payload.'' w))))
      | Inl err \<Rightarrow>
          (Failed err,
           log (''Failed to authenticate request via SAML response: '' @ message err)
             (record_call (SamlAuthenticate [i] x)
               (log ''Authentication has been previously initiated by Kibana.''
                 (log ''Trying to authenticate via SAML response payload.'' w)))))"
  using assms
  by (simp add: authenticateViaPayload_def Let_def samlAuthenticate_def isSAMLResponsePayload_def
        payload_SAMLResponse_def split: sum.splits)

lemma payload_no_refresh:
  "filter is_GetAccessToken (calls_of (trace (snd (authenticateViaPayload options state w)))) =
   filter is_GetAccessToken (calls_of (trace w))"
  by (simp add: authenticateViaPayload_def Let_def samlAuthenticate_def split: sum.splits prod.splits)

lemma handshake_stage_no_refresh:
  "filter is_GetAccessToken (calls_of (trace (snd (handshake_stage options rw)))) =
   filter is_GetAccessToken (calls_of (trace (snd rw)))"
  by (cases rw) (simp add: handshake_stage_calls)

lemma handshake_ajax:
  "\<not> canRedirectRequest (req w) \<Longrightarrow>
   authenticateViaHandshake options w =
     (NotHandled,
      log ''SAML handshake can not be initiated by AJAX requests.''
        (log ''Trying to initiate SAML handshake.'' w))"
  by (simp add: authenticateViaHandshake_def Let_def)

lemma authenticate_state_success:
  assumes "\<not> truthy (headers_authorization (req w0))"
    and "accessToken s = Some a" and "a \<noteq> []"
    and "shield_authenticate (client options) (calls_of (trace w0))
           ((req w0)\<lparr>headers_authorization := Some (''Bearer '' @ a)\<rparr>) = Inr U"
  shows "fst (authenticate options (Some s) w0) = Succeeded U None"
    and "headers_authorization (req (snd (authenticate options (Some s) w0))) =
           Some (''Bearer '' @ a)"
  using assms(4)
  by (simp_all add: authenticate_header_absent [OF assms(1)] state_stage_def
        authenticateViaState_token [OF assms(2,3)] later_stages_skip)

lemma ex_world_simps [simp]: "req (ex_world r) = r" "trace (ex_world r) = []"
  by (simp_all add: ex_world_def)

lemma ex_request_simps [simp]:
  "headers_authorization ex_request = None" "payload ex_request = None"
  "query ex_request = None" "url_path ex_request = ''/app/home''"
  "url_search ex_request = None" "getBasePath ex_request = ''/kbn''"
  "\<not> canRedirectRequest ex_request"
  by (simp_all add: ex_request_def canRedirectRequest_def)

lemma ex_state_simps [simp]:
  "requestId (ex_state a r) = None" "nextURL (ex_state a r) = None"
  "accessToken (ex_state a r) = a" "refreshToken (ex_state a r) = r"
  by (simp_all add: ex_state_def)

lemma ex_options_simps [simp]:
  "client ex_options = ex_cluster" "basePath ex_options = ''/kbn''"
  by (simp_all add: ex_options_def)

lemma ex_cluster_simps [simp]:
  "shield_authenticate ex_cluster calls r =
     (if headers_authorization r = Some ''Bearer A'' then Inr (User ''U'')
      else if headers_authorization r = Some ''Bearer expired'' then Inl (error_with_status 401)
      else Inl (error_with_status 403))"
  "shield_samlPrepare ex_cluster calls acs =
     Inr \<lparr>prepare_id = ''req-1'', prepare_redirect = ''https://idp/sso''\<rparr>"
  "shield_samlAuthenticate ex_cluster calls ids content =
     Inr \<lparr>access_token = ''A'', refresh_token = ''R''\<rparr>"
  "shield_getAccessToken ex_cluster calls grant_type token =
     (if token = ''R'' then Inr \<lparr>access_token = ''A'', refresh_token = ''R2''\<rparr>
      else Inl (error_with_status 400))"
  "shield_samlLogout ex_cluster calls t rt = Inr \<lparr>logout_redirect = None\<rparr>"
  "shield_samlInvalidate ex_cluster calls qs acs = Inr \<lparr>logout_redirect = Some ''https://idp/slo''\<rparr>"
  by (simp_all add: ex_cluster_def)

lemma ex_acs_request_simps [simp]:
  "headers_authorization ex_acs_request = None"
  "payload ex_acs_request = Some [''SAMLResponse'' \<mapsto> ''PHNhbWw+'']"
  "url_path ex_acs_request = ''/app/home''"
  "\<not> canRedirectRequest ex_acs_request"
  by (simp_all add: ex_acs_request_def ex_request_def canRedirectRequest_def)

lemma ex_handshake_state_simps [simp]:
  "requestId ex_handshake_state = Some ''req-1''" "nextURL ex_handshake_state = Some ''/app/home''"
  "accessToken ex_handshake_state = None" "refreshToken ex_handshake_state = None"
  by (simp_all add: ex_handshake_state_def)

lemma authenticate_idp_initiated:
  assumes "\<not> truthy (headers_authorization (req w0))"
    and "payload (req w0) = Some m" and "m ''SAMLResponse'' = Some x" and "x \<noteq> []"
  shows "calls_of (trace (snd (authenticate options None w0))) =
           calls_of (trace w0) @ [SamlAuthenticate [] x]"
    and "shield_samlAuthenticate (client options) (calls_of (trace w0)) [] x = Inr resp \<Longrightarrow>
         fst (authenticate options None w0) =
           Redirect (basePath options @ ''/'')
             (Some \<lparr>requestId = None, nextURL = None, accessToken = Some (access_token resp),
                    refreshToken = Some (refresh_token resp)\<rparr>)"
  using assms(2-4)
  by (simp_all add: authenticate_without_state [OF assms(1)] payload_idp_initiated [of _ m x]
        handshake_stage_def split: sum.splits)

lemma authenticate_corrupt_state:
  assumes "\<not> truthy (headers_authorization (req w0))"
    and "payload (req w0) = Some m" and "m ''SAMLResponse'' = Some x" and "x \<noteq> []"
    and "\<not> truthy (accessToken s)"
    and "\<not> truthy (requestId s) \<or> \<not> truthy (nextURL s)"
  shows "fst (authenticate options (Some s) w0) =
           Failed (badRequest ''SAML response state does not have corresponding request id or redirect URL.'')"
    and "calls_of (trace (snd (authenticate options (Some s) w0))) = calls_of (trace w0)"
proof -
  let ?w = "w0\<lparr>trace := trace w0 @
          [Log (''Trying to authenticate user request to '' @ url_path (req w0) @ ''.''),
           Log ''Trying to authenticate via header.'',
           Log ''Authorization header is not presented.'',
           Log ''Trying to authenticate via state.'',
           Log ''Access token is not found in state.'']\<rparr>"
  have "isSAMLResponsePayload (payload (req ?w))"
    using assms(2-4) by (simp add: isSAMLResponsePayload_def)
  from payload_corrupt_state [OF this assms(6), of options]
  show "fst (authenticate options (Some s) w0) =
           Failed (badRequest ''SAML response state does not have corresponding request id or redirect URL.'')"
    and "calls_of (trace (snd (authenticate options (Some s) w0))) = calls_of (trace w0)"
    by (simp_all add: authenticate_without_token [OF assms(1,5)] handshake_stage_def)
qed

lemma authenticate_sp_initiated:
  assumes "\<not> truthy (headers_authorization (req w0))" and "\<not> truthy (accessToken s)"
    and "payload (req w0) = Some m" and "m ''SAMLResponse'' = Some x" and "x \<noteq> []"
    and "requestId s = Some i" and "i \<noteq> []" and "nextURL s = Some u" and "u \<noteq> []"
  shows "calls_of (trace (snd (authenticate options (Some s) w0))) =
           calls_of (trace w0) @ [SamlAuthenticate [i] x]"
    and "shield_samlAuthenticate (client options) (calls_of (trace w0)) [i] x = Inr resp \<Longrightarrow>
         fst (authenticate options (Some s) w0) =
           Redirect u
             (Some \<lparr>requestId = None, nextURL = None, accessToken = Some (access_token resp),
                    refreshToken = Some (refresh_token resp)\<rparr>)"
  using assms(3-9)
  by (simp_all add: authenticate_without_token [OF assms(1,2)]
        payload_sp_initiated [of _ m x s i u] handshake_stage_def split: sum.splits)

lemma refresh_fails_with_log [simp]:
  "refresh_fails_with options t (log m w) err = refresh_fails_with options t w err"
  by (simp add: refresh_fails_with_def cong: sum.case_cong)

lemma refresh_try_fails:
  assumes "refresh_fails_with options t w err"
  shows "fst (refresh_try options t w) = Inl err"
proof (cases "shield_getAccessToken (client options) (calls_of (trace w)) ''refresh_token'' t")
  case (Inl e)
  with assms show ?thesis
    by (simp add: refresh_fails_with_def refresh_try_def getAccessToken_def)
next
  case (Inr resp)
  with assms show ?thesis
    by (simp add: refresh_fails_with_def refresh_try_def Let_def getAccessToken_def
          callWithRequest_def)
qed

lemma refresh_try_req:
  "canRedirectRequest (req (snd (refresh_try options t w))) = canRedirectRequest (req w)"
  by (simp add: refresh_try_def Let_def getAccessToken_def callWithRequest_def split: sum.splits)

lemma refresh_token_failure:
  assumes "refreshToken s = Some t" and "t \<noteq> []" and "refresh_fails_with options t w0 err"
  shows "authenticateViaRefreshToken options s w0 =
           refresh_catch options err
             (snd (refresh_try options t (log ''Trying to refresh access token.'' w0)))"
proof -
  have "fst (refresh_try options t (log ''Trying to refresh access token.'' w0)) = Inl err"
    using assms(3) by (simp add: refresh_try_fails)
  moreover obtain r w' where
    "refresh_try options t (log ''Trying to refresh access token.'' w0) = (r, w')"
    by (cases "refresh_try options t (log ''Trying to refresh access token.'' w0)")
  ultimately show ?thesis
    using assms(1,2) by (simp add: authenticateViaRefreshToken_def Let_def)
qed

lemma refresh_catch_header:
  "headers_authorization (req (snd (refresh_catch options err w))) = None"
  by (simp add: refresh_catch_def Let_def handshake_req)

lemma ex_slo_request_simps [simp]:
  "query ex_slo_request = Some [''SAMLRequest'' \<mapsto> ''PHNsbz4='']"
  "url_search ex_slo_request = Some ''?SAMLRequest=PHNsbz4%3D&SigAlg=rsa''"
  by (simp_all add: ex_slo_request_def)

lemma error_with_status_simps [simp]:
  "statusCode (error_with_status n) = Some n" "body (error_with_status n) = None"
  "message (error_with_status n) = ''backend error''"
  by (simp_all add: error_with_status_def)

subsection \<open>The header of the request along the strategies\<close>

lemma header_req: "req (snd (authenticateViaHeader options w)) = req w"
  by (simp add: authenticateViaHeader_def Let_def callWithRequest_def split: sum.splits)

lemma header_presented_result:
  assumes "truthy (headers_authorization (req w))"
  shows "snd (fst (authenticateViaHeader options w)) \<or>
         \<not> notHandled (fst (fst (authenticateViaHeader options w)))"
  using assms
  by (simp add: authenticateViaHeader_def Let_def callWithRequest_def split: sum.splits)

lemma state_stage_skip: "\<not> notHandled r \<Longrightarrow> state_stage options state (r, w) = (r, w)"
  by (simp add: state_stage_def split: option.splits)

lemma authenticate_header_presented:
  assumes "truthy (headers_authorization (req w0))"
  shows "req (snd (authenticate options state w0)) = req w0"
proof -
  let ?w1 = "log (''Trying to authenticate user request to '' @ url_path (req w0) @ ''.'') w0"
  obtain r flag w2 where h: "authenticateViaHeader options ?w1 = ((r, flag), w2)"
    by (metis surj_pair)
  have "req w2 = req w0"
    using header_req [of options ?w1] h by simp
  moreover have "flag \<or> \<not> notHandled r"
    using header_presented_result [of ?w1 options] assms h by simp
  ultimately show ?thesis
    using h
    by (auto simp add: authenticate_def Let_def state_stage_skip later_stages_skip)
qed

lemma state_header:
  "notHandled (fst (authenticateViaState options s w)) \<Longrightarrow>
     req (snd (authenticateViaState options s w)) = req w"
  "failed (fst (authenticateViaState options s w)) \<Longrightarrow>
     headers_authorization (req (snd (authenticateViaState options s w))) = None"
proof -
  show "req (snd (authenticateViaState options s w)) = req w"
    if "notHandled (fst (authenticateViaState options s w))"
  proof (cases "truthy (accessToken s)")
    case False
    then show ?thesis by (simp add: authenticateViaState_no_token)
  next
    case True
    then obtain a where "accessToken s = Some a" "a \<noteq> []"
      by (auto simp add: truthy_iff)
    from authenticateViaState_token [OF this, of options w] that
    show ?thesis by (simp split: sum.splits)
  qed
  show "headers_authorization (req (snd (authenticateViaState options s w))) = None"
    if "failed (fst (authenticateViaState options s w))"
  proof (cases "truthy (accessToken s)")
    case False
    with that show ?thesis by (simp add: authenticateViaState_no_token)
  next
    case True
    then obtain a where "accessToken s = Some a" "a \<noteq> []"
      by (auto simp add: truthy_iff)
    from authenticateViaState_token [OF this, of options w] that
    show ?thesis by (simp split: sum.splits)
  qed
qed

lemma refresh_try_result:
  "fst (refresh_try options t w) = Inr r \<Longrightarrow> \<not> notHandled r \<and> \<not> failed r"
  by (auto simp add: refresh_try_def Let_def getAccessToken_def callWithRequest_def
        split: sum.splits)

lemma refresh_header:
  assumes "notHandled (fst (authenticateViaRefreshToken options s w)) \<or>
           failed (fst (authenticateViaRefreshToken options s w))"
  shows "headers_authorization (req (snd (authenticateViaRefreshToken options s w))) =
           headers_authorization (req w)
         \<or> headers_authorization (req (snd (authenticateViaRefreshToken options s w))) = None"
proof (cases "truthy (refreshToken s)")
  case False
  then show ?thesis
    by (cases "refreshToken s") (simp_all add: authenticateViaRefreshToken_def Let_def)
next
  case True
  then obtain t where t: "refreshToken s = Some t" "t \<noteq> []"
    by (auto simp add: truthy_iff)
  obtain r w5 where rw: "refresh_try options t (log ''Trying to refresh access token.'' w) = (r, w5)"
    by (cases "refresh_try options t (log ''Trying to refresh access token.'' w)")
  show ?thesis
  proof (cases r)
    case (Inl err)
    with t rw have "authenticateViaRefreshToken options s w = refresh_catch options err w5"
      by (simp add: authenticateViaRefreshToken_def Let_def)
    then show ?thesis by (simp add: refresh_catch_header)
  next
    case (Inr result)
    with t rw have "fst (authenticateViaRefreshToken options s w) = result"
      by (simp add: authenticateViaRefreshToken_def Let_def)
    moreover have "\<not> notHandled result \<and> \<not> failed result"
      using refresh_try_result [of options t "log ''Trying to refresh access token.'' w" result]
        rw Inr by simp
    ultimately show ?thesis using assms by simp
  qed
qed

lemma state_stage_header:
  assumes "notHandled (fst (state_stage options state (NotHandled, w))) \<or>
           failed (fst (state_stage options state (NotHandled, w)))"
  shows "headers_authorization (req (snd (state_stage options state (NotHandled, w)))) =
           headers_authorization (req w)
         \<or> headers_authorization (req (snd (state_stage options state (NotHandled, w)))) = None"
proof (cases state)
  case None
  then show ?thesis by (simp add: state_stage_no_state)
next
  case (Some s)
  obtain r w1 where rw: "authenticateViaState options s w = (r, w1)"
    by (cases "authenticateViaState options s w")
  show ?thesis
  proof (cases "failed r \<and> isAccessTokenExpiredError (error_of r)")
    case True
    then have "headers_authorization (req w1) = None"
      using state_header(2) [of options s w] rw by simp
    moreover have "state_stage options state (NotHandled, w) =
                     authenticateViaRefreshToken options s w1"
      using Some rw True by (simp add: state_stage_def)
    ultimately show ?thesis
      using refresh_header [of options s w1] assms by auto
  next
    case False
    then have eq: "state_stage options state (NotHandled, w) = (r, w1)"
      using Some rw by (auto simp add: state_stage_def)
    with assms have "notHandled r \<or> failed r" by simp
    then show ?thesis
      using state_header [of options s w] rw eq by auto
  qed
qed

lemma handshake_stage_req: "req (snd (handshake_stage options rw)) = req (snd rw)"
  by (cases rw) (simp add: handshake_stage_def handshake_req)

lemma payload_stage_req: "req (snd (payload_stage options state rw)) = req (snd rw)"
  by (cases rw) (simp add: payload_stage_def payload_req)

lemma later_stages_req:
  "req (snd (handshake_stage options (payload_stage options state rw))) = req (snd rw)"
  by (simp add: handshake_stage_req payload_stage_req)

lemma later_stages_result:
  assumes "notHandled (fst (handshake_stage options (payload_stage options state rw))) \<or>
           failed (fst (handshake_stage options (payload_stage options state rw)))"
  shows "notHandled (fst rw) \<or> failed (fst rw)"
proof (cases rw)
  case (Pair r w)
  with assms show ?thesis
    by (cases r) (simp_all add: later_stages_skip)
qed

lemma authenticate_header_neutral:
  assumes "notHandled (fst (authenticate options state w0)) \<or>
           failed (fst (authenticate options state w0))"
  shows "headers_authorization (req (snd (authenticate options state w0))) =
           headers_authorization (req w0)
         \<or> (headers_authorization (req w0) = Some [] \<and>
            headers_authorization (req (snd (authenticate options state w0))) = None)"
proof (cases "truthy (headers_authorization (req w0))")
  case True
  then show ?thesis by (simp add: authenticate_header_presented)
next
  case False
  let ?w3 = "log ''Authorization header is not presented.''
          (log ''Trying to authenticate via header.''
            (log (''Trying to authenticate user request to '' @ url_path (req w0) @ ''.'') w0))"
  let ?rw = "state_stage options state (NotHandled, ?w3)"
  have eq: "authenticate options state w0 =
              handshake_stage options (payload_stage options state ?rw)"
    by (rule authenticate_header_absent [OF False])
  have "notHandled (fst ?rw) \<or> failed (fst ?rw)"
    using assms unfolding eq by (rule later_stages_result)
  from state_stage_header [OF this]
  have "headers_authorization (req (snd ?rw)) = headers_authorization (req w0)
        \<or> headers_authorization (req (snd ?rw)) = None"
    by simp
  moreover have "req (snd (authenticate options state w0)) = req (snd ?rw)"
    unfolding eq by (rule later_stages_req)
  moreover have "headers_authorization (req w0) = None \<or> headers_authorization (req w0) = Some []"
    using False by (cases "headers_authorization (req w0)") simp_all
  ultimately show ?thesis by auto
qed

lemma authenticate_state_rejected:
  assumes "\<not> truthy (headers_authorization (req w0))"
    and "accessToken s = Some a" and "a \<noteq> []"
    and "shield_authenticate (client options) (calls_of (trace w0))
           ((req w0)\<lparr>headers_authorization := Some (''Bearer '' @ a)\<rparr>) = Inl err"
    and "\<not> isAccessTokenExpiredError (Some err)"
  shows "fst (authenticate options (Some s) w0) = Failed err"
    and "headers_authorization (req (snd (authenticate options (Some s) w0))) = None"
  using assms(4,5)
  by (simp_all add: authenticate_header_absent [OF assms(1)] state_stage_def
        authenticateViaState_token [OF assms(2,3)] later_stages_skip)

lemma rejected_token_not_expired [simp]:
  "\<not> isAccessTokenExpiredError (Some (error_with_status 403))"
  by (simp add: isAccessTokenExpiredError_def getErrorStatusCode_def)

lemma header_no_refresh:
  "filter is_GetAccessToken (calls_of (trace (snd (authenticateViaHeader options w)))) =
   filter is_GetAccessToken (calls_of (trace w))"
  by (simp add: authenticateViaHeader_def Let_def callWithRequest_def split: sum.splits)

lemma authenticate_header_presented_world:
  assumes "truthy (headers_authorization (req w0))"
  shows "snd (authenticate options state w0) =
           snd (authenticateViaHeader options
             (log (''Trying to authenticate user request to '' @ url_path (req w0) @ ''.'') w0))"
proof -
  let ?w1 = "log (''Trying to authenticate user request to '' @ url_path (req w0) @ ''.'') w0"
  obtain r flag w2 where h: "authenticateViaHeader options ?w1 = ((r, flag), w2)"
    by (metis surj_pair)
  have "flag \<or> \<not> notHandled r"
    using header_presented_result [of ?w1 options] assms h by simp
  then show ?thesis
    using h
    by (auto simp add: authenticate_def Let_def state_stage_skip later_stages_skip)
qed

lemma authenticate_no_token_no_refresh:
  assumes "\<not> truthy (accessToken s)"
  shows "filter is_GetAccessToken (calls_of (trace (snd (authenticate options (Some s) w0)))) =
         filter is_GetAccessToken (calls_of (trace w0))"
proof (cases "truthy (headers_authorization (req w0))")
  case True
  show ?thesis
    by (simp add: authenticate_header_presented_world [OF True] header_no_refresh)
next
  case False
  show ?thesis
    by (simp add: authenticate_without_token [OF False assms] handshake_stage_no_refresh
          payload_no_refresh)
qed

lemma handshake_redirect:
  assumes "canRedirectRequest (req w)"
    and "shield_samlPrepare (client options) (calls_of (trace w)) (getACS options) = Inr resp"
  shows "fst (authenticateViaHandshake options w) =
           Redirect (prepare_redirect resp)
             (Some \<lparr>requestId = Some (prepare_id resp),
                    nextURL = Some (getBasePath (req w) @ url_path (req w)),
                    accessToken = None, refreshToken = None\<rparr>)"
  using assms by (simp add: authenticateViaHandshake_def Let_def samlPrepare_def)

lemma refresh_try_unchanged:
  "url_path (req (snd (refresh_try options t w))) = url_path (req w)"
  "getBasePath (req (snd (refresh_try options t w))) = getBasePath (req w)"
  by (simp_all add: refresh_try_def Let_def getAccessToken_def callWithRequest_def
        split: sum.splits)

lemma state_no_refresh:
  "filter is_GetAccessToken (calls_of (trace (snd (authenticateViaState options s w)))) =
   filter is_GetAccessToken (calls_of (trace w))"
  by (simp add: authenticateViaState_def Let_def callWithRequest_def
        split: option.splits sum.splits)

lemma payload_stage_no_refresh:
  "filter is_GetAccessToken (calls_of (trace (snd (payload_stage options state rw)))) =
   filter is_GetAccessToken (calls_of (trace (snd rw)))"
  by (cases rw) (simp add: payload_stage_def payload_no_refresh)

lemma state_stage_refresh_only_when_expired:
  assumes "filter is_GetAccessToken (calls_of (trace (snd (state_stage options (Some s) (NotHandled, w))))) \<noteq>
           filter is_GetAccessToken (calls_of (trace w))"
  shows "\<exists>e. fst (authenticateViaState options s w) = Failed e \<and> isAccessTokenExpiredError (Some e)"
proof -
  obtain r w1 where rw: "authenticateViaState options s w = (r, w1)"
    by (cases "authenticateViaState options s w")
  have calls: "filter is_GetAccessToken (calls_of (trace w1)) =
               filter is_GetAccessToken (calls_of (trace w))"
    using state_no_refresh [of options s w] rw by simp
  show ?thesis
  proof (cases "failed r \<and> isAccessTokenExpiredError (error_of r)")
    case True
    then obtain e where "r = Failed e" by (cases r) simp_all
    with True rw show ?thesis by simp
  next
    case False
    then have "state_stage options (Some s) (NotHandled, w) = (r, w1)"
      using rw by (auto simp add: state_stage_def)
    with calls assms show ?thesis by simp
  qed
qed

lemma authenticate_refresh_only_when_expired:
  assumes "filter is_GetAccessToken (calls_of (trace (snd (authenticate options (Some s) w0)))) \<noteq>
           filter is_GetAccessToken (calls_of (trace w0))"
  shows "\<not> truthy (headers_authorization (req w0))"
    and "\<exists>e. fst (authenticateViaState options s
                 (w0\<lparr>trace := trace w0 @
                    [Log (''Trying to authenticate user request to '' @ url_path (req w0) @ ''.''),
                     Log ''Trying to authenticate via header.'',
                     Log ''Authorization header is not presented.'']\<rparr>)) = Failed e
              \<and> isAccessTokenExpiredError (Some e)"
proof -
  show absent: "\<not> truthy (headers_authorization (req w0))"
  proof
    assume "truthy (headers_authorization (req w0))"
    from authenticate_header_presented_world [OF this, of options "Some s"] assms
    show False by (simp add: header_no_refresh)
  qed
  let ?w3 = "log ''Authorization header is not presented.''
          (log ''Trying to authenticate via header.''
            (log (''Trying to authenticate user request to '' @ url_path (req w0) @ ''.'') w0))"
  have "filter is_GetAccessToken (calls_of (trace (snd (authenticate options (Some s) w0)))) =
        filter is_GetAccessToken (calls_of (trace (snd (state_stage options (Some s) (NotHandled, ?w3)))))"
    by (simp add: authenticate_header_absent [OF absent] handshake_stage_no_refresh
          payload_stage_no_refresh)
  with assms have "filter is_GetAccessToken
        (calls_of (trace (snd (state_stage options (Some s) (NotHandled, ?w3))))) \<noteq>
      filter is_GetAccessToken (calls_of (trace ?w3))"
    by simp
  from state_stage_refresh_only_when_expired [OF this]
  show "\<exists>e. fst (authenticateViaState options s
                 (w0\<lparr>trace := trace w0 @
                    [Log (''Trying to authenticate user request to '' @ url_path (req w0) @ ''.''),
                     Log ''Trying to authenticate via header.'',
                     Log ''Authorization header is not presented.'']\<rparr>)) = Failed e
              \<and> isAccessTokenExpiredError (Some e)"
    by (simp add: log_def)
qed

lemma authenticate_no_state_no_refresh:
  "filter is_GetAccessToken (calls_of (trace (snd (authenticate options None w0)))) =
   filter is_GetAccessToken (calls_of (trace w0))"
proof (cases "truthy (headers_authorization (req w0))")
  case True
  show ?thesis
    by (simp add: authenticate_header_presented_world [OF True] header_no_refresh)
next
  case False
  show ?thesis
    by (simp add: authenticate_without_state [OF False] handshake_stage_no_refresh
          payload_no_refresh)
qed

text \<open>Scenario 5: the expired session is refreshed.\<close>

lemma unauthorized_is_expired [simp]:
  "isAccessTokenExpiredError (Some (error_with_status 401))"
  by (simp add: isAccessTokenExpiredError_def getErrorStatusCode_def)

lemma ex_expired_session_refreshed:
  "fst (authenticate ex_options (Some (ex_state (Some ''expired'') (Some ''R''))) (ex_world ex_request)) =
     Succeeded (User ''U'')
       (Some \<lparr>requestId = None, nextURL = None, accessToken = Some ''A'', refreshToken = Some ''R2''\<rparr>)"
  "calls_of (trace (snd (authenticate ex_options (Some (ex_state (Some ''expired'') (Some ''R'')))
      (ex_world ex_request)))) =
     [ShieldAuthenticate (ex_request\<lparr>headers_authorization := Some ''Bearer expired''\<rparr>),
      GetAccessToken ''refresh_token'' ''R'',
      ShieldAuthenticate (ex_request\<lparr>headers_authorization := Some ''Bearer A''\<rparr>)]"
proof -
  have h1: "\<not> truthy (headers_authorization (req (ex_world ex_request)))" by simp
  have h2: "accessToken (ex_state (Some ''expired'') (Some ''R'')) = Some ''expired''" by simp
  have h3: "''expired'' \<noteq> []" by simp
  have eq: "authenticate ex_options (Some (ex_state (Some ''expired'') (Some ''R''))) (ex_world ex_request) =
     handshake_stage ex_options (payload_stage ex_options (Some (ex_state (Some ''expired'') (Some ''R'')))
       (authenticateViaRefreshToken ex_options (ex_state (Some ''expired'') (Some ''R''))
          (snd (authenticateViaState ex_options (ex_state (Some ''expired'') (Some ''R''))
            (log ''Authorization header is not presented.''
              (log ''Trying to authenticate via header.''
                (log (''Trying to authenticate user request to '' @ url_path (req (ex_world ex_request)) @ ''.'')
                  (ex_world ex_request))))))))"
    by (simp add: authenticate_header_absent [OF h1] state_stage_def
          authenticateViaState_token [OF h2 h3])
  show "fst (authenticate ex_options (Some (ex_state (Some ''expired'') (Some ''R''))) (ex_world ex_request)) =
     Succeeded (User ''U'')
       (Some \<lparr>requestId = None, nextURL = None, accessToken = Some ''A'', refreshToken = Some ''R2''\<rparr>)"
    unfolding eq
    by (simp add: authenticateViaState_token [OF h2 h3] authenticateViaRefreshToken_def
          refresh_try_def Let_def getAccessToken_def callWithRequest_def later_stages_skip)
  show "calls_of (trace (snd (authenticate ex_options (Some (ex_state (Some ''expired'') (Some ''R'')))
      (ex_world ex_request)))) =
     [ShieldAuthenticate (ex_request\<lparr>headers_authorization := Some ''Bearer expired''\<rparr>),
      GetAccessToken ''refresh_token'' ''R'',
      ShieldAuthenticate (ex_request\<lparr>headers_authorization := Some ''Bearer A''\<rparr>)]"
    unfolding eq
    by (simp add: authenticateViaState_token [OF h2 h3] authenticateViaRefreshToken_def
          refresh_try_def Let_def getAccessToken_def callWithRequest_def later_stages_skip)
qed


section \<open>The claims\<close>




text \<open>
  Claim C10. When the \<^verbatim>\<open>Authorization\<close> header value begins with a white-space
  character, the scheme that \<^verbatim>\<open>split(/\s+/)[0]\<close> extracts is the empty string, so
  \<open>authenticate\<close> takes the header for an unrecognised scheme and returns
  \<open>NotHandled\<close> at once without a backend call, even when the first non-empty token is
  \<^verbatim>\<open>Bearer\<close> (as in the witness).
\<close>

theorem leading_whitespace_is_unrecognised:
  assumes "headers_authorization (req w0) = Some (c # rest)" and "is_space c"
  shows "hd (split_whitespace (c # rest)) = []
         \<and> authenticate options state w0 =
             (NotHandled,
              w0\<lparr>trace := trace w0 @
                [Log (''Trying to authenticate user request to '' @ url_path (req w0) @ ''.''),
                 Log ''Trying to authenticate via header.'',
                 Log ''Unsupported authentication schema: '']\<rparr>)
         \<and> calls_of (trace (snd (authenticate options state w0))) = calls_of (trace w0)"
proof -
  have scheme: "hd (split_whitespace (c # rest)) = []"
    using assms(2) by (simp add: hd_split_whitespace)
  then have "toLowerCase (hd (split_whitespace (c # rest))) \<noteq> ''bearer''"
    by (simp add: toLowerCase_def)
  from authenticate_unrecognised [OF assms(1) _ this, of options state] scheme
  show ?thesis by simp
qed

text \<open>Claim C10, witness: the header \<^verbatim>\<open>" Bearer x"\<close>.\<close>

theorem leading_whitespace_is_unrecognised_witness:
  "headers_authorization (req (ex_world (ex_request\<lparr>headers_authorization := Some '' Bearer x''\<rparr>)))
     = Some (CHR '' '' # ''Bearer x'')
   \<and> is_space CHR '' ''
   \<and> split_whitespace '' Bearer x'' = [[], ''Bearer'', ''x'']
   \<and> fst (authenticate ex_options (Some (ex_state (Some ''A'') (Some ''R'')))
        (ex_world (ex_request\<lparr>headers_authorization := Some '' Bearer x''\<rparr>))) = NotHandled
   \<and> calls_of (trace (snd (authenticate ex_options (Some (ex_state (Some ''A'') (Some ''R'')))
        (ex_world (ex_request\<lparr>headers_authorization := Some '' Bearer x''\<rparr>))))) = []"
proof -
  have h1: "headers_authorization (req (ex_world (ex_request\<lparr>headers_authorization := Some '' Bearer x''\<rparr>)))
     = Some (CHR '' '' # ''Bearer x'')"
    by (simp add: ex_inputs)
  have h2: "is_space CHR '' ''" by (simp add: is_space_def)
  have h3: "split_whitespace '' Bearer x'' = [[], ''Bearer'', ''x'']"
    by (simp add: split_whitespace.simps is_space_def)
  show ?thesis
    using leading_whitespace_is_unrecognised [OF h1 h2, of ex_options
        "Some (ex_state (Some ''A'') (Some ''R''))"] h2 h3
    by (simp add: ex_world_def)
qed

text \<open>
  Claim C1, as amended. When the header strategy finds no \<^verbatim>\<open>Authorization\<close> header,
  the state holds an access token and the backend authenticates the request that carries it
  as user \<open>U\<close>, \<open>authenticate\<close> returns \<open>Succeeded U\<close> with no new state, and
  on return \<^verbatim>\<open>request.headers.authorization\<close> is the injected
  \<^verbatim>\<open>Bearer <accessToken>\<close>: the state strategy deletes it only when the call fails.
\<close>

theorem state_strategy_leaves_header_injected:
  assumes "\<not> truthy (headers_authorization (req w0))"
    and "accessToken s = Some a" and "a \<noteq> []"
    and "shield_authenticate (client options) (calls_of (trace w0))
           ((req w0)\<lparr>headers_authorization := Some (''Bearer '' @ a)\<rparr>) = Inr U"
  shows "fst (authenticate options (Some s) w0) = Succeeded U None
         \<and> headers_authorization (req (snd (authenticate options (Some s) w0))) =
             Some (''Bearer '' @ a)"
  using authenticate_state_success [OF assms] by simp

text \<open>Claim C1, witness: the session \<^verbatim>\<open>{accessToken: "A", refreshToken: "R"}\<close>.\<close>

theorem state_strategy_leaves_header_injected_witness:
  "\<not> truthy (headers_authorization (req (ex_world ex_request)))
   \<and> accessToken (ex_state (Some ''A'') (Some ''R'')) = Some ''A'' \<and> ''A'' \<noteq> []
   \<and> shield_authenticate (client ex_options) (calls_of (trace (ex_world ex_request)))
        ((req (ex_world ex_request))\<lparr>headers_authorization := Some (''Bearer '' @ ''A'')\<rparr>) = Inr (User ''U'')
   \<and> fst (authenticate ex_options (Some (ex_state (Some ''A'') (Some ''R''))) (ex_world ex_request))
        = Succeeded (User ''U'') None
   \<and> headers_authorization (req (snd (authenticate ex_options
        (Some (ex_state (Some ''A'') (Some ''R''))) (ex_world ex_request)))) = Some ''Bearer A''"
proof -
  have h1: "\<not> truthy (headers_authorization (req (ex_world ex_request)))"
    by simp
  have h2: "accessToken (ex_state (Some ''A'') (Some ''R'')) = Some ''A''"
    by simp
  have h3: "''A'' \<noteq> []" by simp
  have h4: "shield_authenticate (client ex_options) (calls_of (trace (ex_world ex_request)))
        ((req (ex_world ex_request))\<lparr>headers_authorization := Some (''Bearer '' @ ''A'')\<rparr>) = Inr (User ''U'')"
    by simp
  from state_strategy_leaves_header_injected [OF h1 h2 h3 h4]
  have "fst (authenticate ex_options (Some (ex_state (Some ''A'') (Some ''R''))) (ex_world ex_request))
          = Succeeded (User ''U'') None"
    and "headers_authorization (req (snd (authenticate ex_options
          (Some (ex_state (Some ''A'') (Some ''R''))) (ex_world ex_request)))) = Some ''Bearer A''"
    by simp_all
  with h1 h2 h3 h4 show ?thesis by blast
qed

text \<open>
  Claim C1 as stated fails: with the session \<^verbatim>\<open>{accessToken: "A", refreshToken: "R"}\<close>
  and a request without the header, the result is \<open>Succeeded\<close> and the header is
  \<^verbatim>\<open>Bearer A\<close> on return, not absent and not its value on entry.
\<close>

theorem state_strategy_header_absent_counterexample:
  "headers_authorization (req (ex_world ex_request)) = None
   \<and> fst (authenticate ex_options (Some (ex_state (Some ''A'') (Some ''R''))) (ex_world ex_request))
        = Succeeded (User ''U'') None
   \<and> headers_authorization (req (snd (authenticate ex_options
        (Some (ex_state (Some ''A'') (Some ''R''))) (ex_world ex_request)))) = Some ''Bearer A''
   \<and> headers_authorization (req (snd (authenticate ex_options
        (Some (ex_state (Some ''A'') (Some ''R''))) (ex_world ex_request))))
       \<noteq> headers_authorization (req (ex_world ex_request))"
proof -
  have h1: "\<not> truthy (headers_authorization (req (ex_world ex_request)))"
    by simp
  have h2: "accessToken (ex_state (Some ''A'') (Some ''R'')) = Some ''A''"
    by simp
  have h3: "''A'' \<noteq> []" by simp
  have h4: "shield_authenticate (client ex_options) (calls_of (trace (ex_world ex_request)))
        ((req (ex_world ex_request))\<lparr>headers_authorization := Some (''Bearer '' @ ''A'')\<rparr>) = Inr (User ''U'')"
    by simp
  from authenticate_state_success [OF h1 h2 h3 h4]
  have "fst (authenticate ex_options (Some (ex_state (Some ''A'') (Some ''R''))) (ex_world ex_request))
          = Succeeded (User ''U'') None"
    and "headers_authorization (req (snd (authenticate ex_options
          (Some (ex_state (Some ''A'') (Some ''R''))) (ex_world ex_request)))) = Some ''Bearer A''"
    by simp_all
  then show ?thesis by simp
qed

text \<open>
  Claim C2, as amended. When the state has no access token (with or without a refresh
  token), the refresh strategy is not attempted: \<open>authenticate\<close> makes no
  \<^verbatim>\<open>getAccessToken\<close> call; and when no \<^verbatim>\<open>Authorization\<close> header is presented
  either, the state strategy returns \<open>NotHandled\<close> and \<open>authenticate\<close> goes
  straight on to the payload strategy and then the handshake stage. The refresh strategy
  runs only after the state strategy has failed with an expired-token error: whenever
  \<open>authenticate\<close> makes a \<^verbatim>\<open>getAccessToken\<close> call, no header was presented and
  the state strategy, run right after the header strategy, has returned \<open>Failed e\<close>
  for an error \<open>e\<close> that the classifier takes for an expired token; without a state
  there is no such call.
\<close>

theorem refresh_only_after_expired_token:
  "(\<not> truthy (accessToken s) \<longrightarrow>
      filter is_GetAccessToken (calls_of (trace (snd (authenticate options (Some s) w0)))) =
        filter is_GetAccessToken (calls_of (trace w0))
      \<and> (\<not> truthy (headers_authorization (req w0)) \<longrightarrow>
           authenticate options (Some s) w0 =
             handshake_stage options (authenticateViaPayload options (Some s)
               (w0\<lparr>trace := trace w0 @
                  [Log (''Trying to authenticate user request to '' @ url_path (req w0) @ ''.''),
                   Log ''Trying to authenticate via header.'',
                   Log ''Authorization header is not presented.'',
                   Log ''Trying to authenticate via state.'',
                   Log ''Access token is not found in state.'']\<rparr>))))
   \<and> (filter is_GetAccessToken (calls_of (trace (snd (authenticate options (Some s) w0)))) \<noteq>
        filter is_GetAccessToken (calls_of (trace w0)) \<longrightarrow>
          \<not> truthy (headers_authorization (req w0))
          \<and> (\<exists>e. fst (authenticateViaState options s
                      (w0\<lparr>trace := trace w0 @
                         [Log (''Trying to authenticate user request to '' @ url_path (req w0) @ ''.''),
                          Log ''Trying to authenticate via header.'',
                          Log ''Authorization header is not presented.'']\<rparr>)) = Failed e
                   \<and> isAccessTokenExpiredError (Some e)))
   \<and> filter is_GetAccessToken (calls_of (trace (snd (authenticate options None w0)))) =
       filter is_GetAccessToken (calls_of (trace w0))"
proof -
  have "filter is_GetAccessToken (calls_of (trace (snd (authenticate options (Some s) w0)))) =
          filter is_GetAccessToken (calls_of (trace w0))
        \<and> (\<not> truthy (headers_authorization (req w0)) \<longrightarrow>
             authenticate options (Some s) w0 =
               handshake_stage options (authenticateViaPayload options (Some s)
                 (w0\<lparr>trace := trace w0 @
                    [Log (''Trying to authenticate user request to '' @ url_path (req w0) @ ''.''),
                     Log ''Trying to authenticate via header.'',
                     Log ''Authorization header is not presented.'',
                     Log ''Trying to authenticate via state.'',
                     Log ''Access token is not found in state.'']\<rparr>)))"
    if "\<not> truthy (accessToken s)"
    using authenticate_no_token_no_refresh [OF that] authenticate_without_token [OF _ that]
    by blast
  then show ?thesis
    using authenticate_refresh_only_when_expired [of options s w0]
      authenticate_no_state_no_refresh [of options w0]
    by blast
qed

text \<open>
  Claim C2, witness: with the state \<^verbatim>\<open>{refreshToken: "R"}\<close> no refresh is attempted;
  with the session \<^verbatim>\<open>{accessToken: "expired", refreshToken: "R"}\<close> the state strategy
  fails with 401 and the refresh token is exchanged (spec scenario 5).
\<close>

theorem refresh_only_after_expired_token_witness:
  "\<not> truthy (accessToken (ex_state None (Some ''R'')))
   \<and> truthy (refreshToken (ex_state None (Some ''R'')))
   \<and> \<not> truthy (headers_authorization (req (ex_world ex_request)))
   \<and> filter is_GetAccessToken (calls_of (trace (snd (authenticate ex_options
        (Some (ex_state None (Some ''R''))) (ex_world ex_request))))) = []
   \<and> authenticate ex_options (Some (ex_state None (Some ''R''))) (ex_world ex_request) =
       handshake_stage ex_options (authenticateViaPayload ex_options (Some (ex_state None (Some ''R'')))
         \<lparr>req = ex_request,
          trace =
            [Log ''Trying to authenticate user request to /app/home.'',
             Log ''Trying to authenticate via header.'',
             Log ''Authorization header is not presented.'',
             Log ''Trying to authenticate via state.'',
             Log ''Access token is not found in state.'']\<rparr>)
   \<and> filter is_GetAccessToken (calls_of (trace (snd (authenticate ex_options
        (Some (ex_state (Some ''expired'') (Some ''R''))) (ex_world ex_request))))) =
       [GetAccessToken ''refresh_token'' ''R'']
   \<and> filter is_GetAccessToken (calls_of (trace (snd (authenticate ex_options
        (Some (ex_state (Some ''expired'') (Some ''R''))) (ex_world ex_request))))) \<noteq>
       filter is_GetAccessToken (calls_of (trace (ex_world ex_request)))
   \<and> (\<exists>e. fst (authenticateViaState ex_options (ex_state (Some ''expired'') (Some ''R''))
               \<lparr>req = ex_request,
                trace =
                  [Log ''Trying to authenticate user request to /app/home.'',
                   Log ''Trying to authenticate via header.'',
                   Log ''Authorization header is not presented.'']\<rparr>) = Failed e
            \<and> isAccessTokenExpiredError (Some e))"
proof -
  have h1: "\<not> truthy (accessToken (ex_state None (Some ''R'')))"
    by simp
  have h2: "\<not> truthy (headers_authorization (req (ex_world ex_request)))"
    by simp
  have h3: "filter is_GetAccessToken (calls_of (trace (snd (authenticate ex_options
        (Some (ex_state (Some ''expired'') (Some ''R''))) (ex_world ex_request))))) =
       [GetAccessToken ''refresh_token'' ''R'']"
    by (simp add: ex_expired_session_refreshed(2))
  then have h4: "filter is_GetAccessToken (calls_of (trace (snd (authenticate ex_options
        (Some (ex_state (Some ''expired'') (Some ''R''))) (ex_world ex_request))))) \<noteq>
       filter is_GetAccessToken (calls_of (trace (ex_world ex_request)))"
    by simp
  from refresh_only_after_expired_token [of "ex_state None (Some ''R'')" ex_options
      "ex_world ex_request"] h1 h2
  have a: "filter is_GetAccessToken (calls_of (trace (snd (authenticate ex_options
          (Some (ex_state None (Some ''R''))) (ex_world ex_request))))) =
        filter is_GetAccessToken (calls_of (trace (ex_world ex_request)))"
    and b: "authenticate ex_options (Some (ex_state None (Some ''R''))) (ex_world ex_request) =
       handshake_stage ex_options (authenticateViaPayload ex_options (Some (ex_state None (Some ''R'')))
         ((ex_world ex_request)\<lparr>trace := trace (ex_world ex_request) @
            [Log (''Trying to authenticate user request to '' @ url_path (req (ex_world ex_request)) @ ''.''),
             Log ''Trying to authenticate via header.'',
             Log ''Authorization header is not presented.'',
             Log ''Trying to authenticate via state.'',
             Log ''Access token is not found in state.'']\<rparr>))"
    by blast+
  from refresh_only_after_expired_token [of "ex_state (Some ''expired'') (Some ''R'')" ex_options
      "ex_world ex_request"] h4
  have c: "\<exists>e. fst (authenticateViaState ex_options (ex_state (Some ''expired'') (Some ''R''))
               ((ex_world ex_request)\<lparr>trace := trace (ex_world ex_request) @
                  [Log (''Trying to authenticate user request to '' @ url_path (req (ex_world ex_request)) @ ''.''),
                   Log ''Trying to authenticate via header.'',
                   Log ''Authorization header is not presented.'']\<rparr>)) = Failed e
            \<and> isAccessTokenExpiredError (Some e)"
    by blast
  from a b c h3 h4 show ?thesis by (simp add: ex_world_def)
qed

text \<open>
  Claim C2 as stated fails: with the state \<^verbatim>\<open>{refreshToken: "R"}\<close>, on an AJAX
  request without header and body, \<open>authenticate\<close> returns \<open>NotHandled\<close> and has
  made no backend call at all, although the backend would have exchanged \<^verbatim>\<open>R\<close>.
\<close>

theorem refresh_without_access_token_counterexample:
  "headers_authorization (req (ex_world ex_request)) = None
   \<and> accessToken (ex_state None (Some ''R'')) = None
   \<and> refreshToken (ex_state None (Some ''R'')) = Some ''R''
   \<and> fst (authenticate ex_options (Some (ex_state None (Some ''R''))) (ex_world ex_request)) = NotHandled
   \<and> calls_of (trace (snd (authenticate ex_options (Some (ex_state None (Some ''R'')))
        (ex_world ex_request)))) = []"
proof -
  have h1: "\<not> truthy (headers_authorization (req (ex_world ex_request)))"
    by simp
  have h2: "\<not> truthy (accessToken (ex_state None (Some ''R'')))"
    by simp
  have "authenticate ex_options (Some (ex_state None (Some ''R''))) (ex_world ex_request) =
     (NotHandled,
      \<lparr>req = ex_request,
       trace =
         [Log ''Trying to authenticate user request to /app/home.'',
          Log ''Trying to authenticate via header.'',
          Log ''Authorization header is not presented.'',
          Log ''Trying to authenticate via state.'',
          Log ''Access token is not found in state.'',
          Log ''Trying to authenticate via SAML response payload.'',
          Log ''SAML response payload is not found.'',
          Log ''Trying to initiate SAML handshake.'',
          Log ''SAML handshake can not be initiated by AJAX requests.'']\<rparr>)"
    unfolding authenticate_without_token [OF h1 h2]
    by (simp add: payload_absent isSAMLResponsePayload_def handshake_stage_def handshake_ajax
        log_def ex_world_def)
  then show ?thesis by simp
qed

text \<open>
  Claim C3, as amended. On a request without \<^verbatim>\<open>Authorization\<close> header that carries a
  non-empty \<^verbatim>\<open>SAMLResponse\<close>: when \<^verbatim>\<open>priorState\<close> is absent the flow is
  IdP-initiated, \<^verbatim>\<open>samlAuthenticate\<close> is called with \<^verbatim>\<open>ids: []\<close> and the response as
  content, and on success the result is \<open>Redirect (basePath + "/")\<close> with the new token
  pair; when \<^verbatim>\<open>priorState\<close> is present without access token and lacks
  \<^verbatim>\<open>requestId\<close> or \<^verbatim>\<open>nextURL\<close> (both, in particular), the result is
  \<open>Failed (badRequest ...)\<close> and no backend call is made.
\<close>

theorem saml_response_idp_initiated_or_corrupt:
  assumes "\<not> truthy (headers_authorization (req w0))"
    and "payload (req w0) = Some m" and "m ''SAMLResponse'' = Some x" and "x \<noteq> []"
  shows "calls_of (trace (snd (authenticate options None w0))) =
           calls_of (trace w0) @ [SamlAuthenticate [] x]
         \<and> (shield_samlAuthenticate (client options) (calls_of (trace w0)) [] x = Inr resp \<longrightarrow>
              fst (authenticate options None w0) =
                Redirect (basePath options @ ''/'')
                  (Some \<lparr>requestId = None, nextURL = None,
                         accessToken = Some (access_token resp),
                         refreshToken = Some (refresh_token resp)\<rparr>))
         \<and> (\<not> truthy (accessToken s) \<and> (\<not> truthy (requestId s) \<or> \<not> truthy (nextURL s)) \<longrightarrow>
              fst (authenticate options (Some s) w0) =
                Failed (badRequest
                  ''SAML response state does not have corresponding request id or redirect URL.'')
              \<and> calls_of (trace (snd (authenticate options (Some s) w0))) = calls_of (trace w0))"
  using authenticate_idp_initiated [OF assms] authenticate_corrupt_state [OF assms]
  by blast

text \<open>
  Claim C3, witness: the response arrives without state (spec scenario 3), and with the
  state \<^verbatim>\<open>{}\<close>.
\<close>

theorem saml_response_idp_initiated_or_corrupt_witness:
  "\<not> truthy (headers_authorization (req (ex_world ex_acs_request)))
   \<and> payload (req (ex_world ex_acs_request)) = Some [''SAMLResponse'' \<mapsto> ''PHNhbWw+'']
   \<and> [''SAMLResponse'' \<mapsto> ''PHNhbWw+''] ''SAMLResponse'' = Some ''PHNhbWw+''
   \<and> ''PHNhbWw+'' \<noteq> []
   \<and> calls_of (trace (snd (authenticate ex_options None (ex_world ex_acs_request)))) =
       [SamlAuthenticate [] ''PHNhbWw+'']
   \<and> fst (authenticate ex_options None (ex_world ex_acs_request)) =
       Redirect ''/kbn/''
         (Some \<lparr>requestId = None, nextURL = None, accessToken = Some ''A'',
                refreshToken = Some ''R''\<rparr>)
   \<and> fst (authenticate ex_options (Some (ex_state None None)) (ex_world ex_acs_request)) =
       Failed (badRequest
         ''SAML response state does not have corresponding request id or redirect URL.'')
   \<and> calls_of (trace (snd (authenticate ex_options (Some (ex_state None None))
        (ex_world ex_acs_request)))) = []"
proof -
  have h1: "\<not> truthy (headers_authorization (req (ex_world ex_acs_request)))"
    by simp
  have h2: "payload (req (ex_world ex_acs_request)) = Some [''SAMLResponse'' \<mapsto> ''PHNhbWw+'']"
    by simp
  have h3: "[''SAMLResponse'' \<mapsto> ''PHNhbWw+''] ''SAMLResponse'' = Some ''PHNhbWw+''"
    by simp
  have h4: "''PHNhbWw+'' \<noteq> []" by simp
  have h5: "shield_samlAuthenticate (client ex_options) (calls_of (trace (ex_world ex_acs_request)))
              [] ''PHNhbWw+'' = Inr \<lparr>access_token = ''A'', refresh_token = ''R''\<rparr>"
    by simp
  have h6: "\<not> truthy (accessToken (ex_state None None)) \<and>
            (\<not> truthy (requestId (ex_state None None)) \<or> \<not> truthy (nextURL (ex_state None None)))"
    by simp
  from saml_response_idp_initiated_or_corrupt [OF h1 h2 h3 h4, of ex_options
      "\<lparr>access_token = ''A'', refresh_token = ''R''\<rparr>" "ex_state None None"] h5 h6
  have "calls_of (trace (snd (authenticate ex_options None (ex_world ex_acs_request)))) =
          calls_of (trace (ex_world ex_acs_request)) @ [SamlAuthenticate [] ''PHNhbWw+'']"
    and "fst (authenticate ex_options None (ex_world ex_acs_request)) =
       Redirect (basePath ex_options @ ''/'')
         (Some \<lparr>requestId = None, nextURL = None, accessToken = Some ''A'',
                refreshToken = Some ''R''\<rparr>)"
    and "fst (authenticate ex_options (Some (ex_state None None)) (ex_world ex_acs_request)) =
       Failed (badRequest
         ''SAML response state does not have corresponding request id or redirect URL.'')"
    and "calls_of (trace (snd (authenticate ex_options (Some (ex_state None None))
        (ex_world ex_acs_request)))) = calls_of (trace (ex_world ex_acs_request))"
    by simp_all
  with h1 h2 h3 h4 show ?thesis by simp
qed

text \<open>
  Claim C3 as stated fails: with the state \<^verbatim>\<open>{}\<close>, which is present and has neither
  \<^verbatim>\<open>requestId\<close> nor \<^verbatim>\<open>nextURL\<close>, a request with a \<^verbatim>\<open>SAMLResponse\<close> is not
  treated as IdP-initiated: the result is \<open>Failed\<close> and \<^verbatim>\<open>samlAuthenticate\<close> is not
  called, although the backend would have accepted the response.
\<close>

theorem saml_response_empty_state_counterexample:
  "requestId (ex_state None None) = None \<and> nextURL (ex_state None None) = None
   \<and> isSAMLResponsePayload (payload (req (ex_world ex_acs_request)))
   \<and> shield_samlAuthenticate (client ex_options) [] [] ''PHNhbWw+'' =
       Inr \<lparr>access_token = ''A'', refresh_token = ''R''\<rparr>
   \<and> fst (authenticate ex_options (Some (ex_state None None)) (ex_world ex_acs_request)) =
       Failed (badRequest
         ''SAML response state does not have corresponding request id or redirect URL.'')
   \<and> calls_of (trace (snd (authenticate ex_options (Some (ex_state None None))
        (ex_world ex_acs_request)))) = []"
proof -
  have h1: "\<not> truthy (headers_authorization (req (ex_world ex_acs_request)))"
    by simp
  have h2: "payload (req (ex_world ex_acs_request)) = Some [''SAMLResponse'' \<mapsto> ''PHNhbWw+'']"
    by simp
  have h3: "[''SAMLResponse'' \<mapsto> ''PHNhbWw+''] ''SAMLResponse'' = Some ''PHNhbWw+''"
    by simp
  have h4: "''PHNhbWw+'' \<noteq> []" by simp
  have h5: "\<not> truthy (accessToken (ex_state None None))" by simp
  have h6: "\<not> truthy (requestId (ex_state None None)) \<or> \<not> truthy (nextURL (ex_state None None))"
    by simp
  from authenticate_corrupt_state [OF h1 h2 h3 h4 h5 h6, of ex_options]
  show ?thesis by (simp add: isSAMLResponsePayload_def)
qed

text \<open>
  Claim C8. When the request carries a non-empty \<^verbatim>\<open>SAMLResponse\<close> and the state has
  both \<^verbatim>\<open>requestId\<close> and \<^verbatim>\<open>nextURL\<close>, the payload strategy calls
  \<^verbatim>\<open>samlAuthenticate\<close> with \<^verbatim>\<open>ids: [requestId]\<close> and the response as content, and
  on success returns \<open>Redirect nextURL\<close> with the complete new token pair. The same
  holds of \<open>authenticate\<close> whenever the earlier strategies do not handle the request
  (no header, no access token in the state).
\<close>

theorem saml_response_sp_initiated:
  assumes "payload (req w) = Some m" and "m ''SAMLResponse'' = Some x" and "x \<noteq> []"
    and "requestId s = Some i" and "i \<noteq> []" and "nextURL s = Some u" and "u \<noteq> []"
  shows "calls_of (trace (snd (authenticateViaPayload options (Some s) w))) =
           calls_of (trace w) @ [SamlAuthenticate [i] x]
         \<and> (shield_samlAuthenticate (client options) (calls_of (trace w)) [i] x = Inr resp \<longrightarrow>
              fst (authenticateViaPayload options (Some s) w) =
                Redirect u
                  (Some \<lparr>requestId = None, nextURL = None,
                         accessToken = Some (access_token resp),
                         refreshToken = Some (refresh_token resp)\<rparr>))
         \<and> (\<not> truthy (headers_authorization (req w)) \<and> \<not> truthy (accessToken s) \<longrightarrow>
              calls_of (trace (snd (authenticate options (Some s) w))) =
                calls_of (trace w) @ [SamlAuthenticate [i] x]
              \<and> (shield_samlAuthenticate (client options) (calls_of (trace w)) [i] x = Inr resp \<longrightarrow>
                   fst (authenticate options (Some s) w) =
                     Redirect u
                       (Some \<lparr>requestId = None, nextURL = None,
                              accessToken = Some (access_token resp),
                              refreshToken = Some (refresh_token resp)\<rparr>)))"
proof -
  have "calls_of (trace (snd (authenticateViaPayload options (Some s) w))) =
           calls_of (trace w) @ [SamlAuthenticate [i] x]"
    by (simp add: payload_sp_initiated [OF assms] split: sum.splits)
  moreover have "fst (authenticateViaPayload options (Some s) w) =
                Redirect u
                  (Some \<lparr>requestId = None, nextURL = None,
                         accessToken = Some (access_token resp),
                         refreshToken = Some (refresh_token resp)\<rparr>)"
    if "shield_samlAuthenticate (client options) (calls_of (trace w)) [i] x = Inr resp"
    using that by (simp add: payload_sp_initiated [OF assms])
  ultimately show ?thesis
    using authenticate_sp_initiated [OF _ _ assms, of options] by blast
qed

text \<open>Claim C8, witness: spec scenario 2.\<close>

theorem saml_response_sp_initiated_witness:
  "payload (req (ex_world ex_acs_request)) = Some [''SAMLResponse'' \<mapsto> ''PHNhbWw+'']
   \<and> [''SAMLResponse'' \<mapsto> ''PHNhbWw+''] ''SAMLResponse'' = Some ''PHNhbWw+''
   \<and> ''PHNhbWw+'' \<noteq> []
   \<and> requestId ex_handshake_state = Some ''req-1'' \<and> ''req-1'' \<noteq> []
   \<and> nextURL ex_handshake_state = Some ''/app/home'' \<and> ''/app/home'' \<noteq> []
   \<and> calls_of (trace (snd (authenticate ex_options (Some ex_handshake_state)
        (ex_world ex_acs_request)))) = [SamlAuthenticate [''req-1''] ''PHNhbWw+'']
   \<and> fst (authenticate ex_options (Some ex_handshake_state) (ex_world ex_acs_request)) =
       Redirect ''/app/home''
         (Some \<lparr>requestId = None, nextURL = None, accessToken = Some ''A'',
                refreshToken = Some ''R''\<rparr>)"
proof -
  have h1: "payload (req (ex_world ex_acs_request)) = Some [''SAMLResponse'' \<mapsto> ''PHNhbWw+'']"
    by simp
  have h2: "[''SAMLResponse'' \<mapsto> ''PHNhbWw+''] ''SAMLResponse'' = Some ''PHNhbWw+''"
    by simp
  have h3: "''PHNhbWw+'' \<noteq> []" by simp
  have h4: "requestId ex_handshake_state = Some ''req-1''" by simp
  have h5: "''req-1'' \<noteq> []" by simp
  have h6: "nextURL ex_handshake_state = Some ''/app/home''" by simp
  have h7: "''/app/home'' \<noteq> []" by simp
  have h8: "\<not> truthy (headers_authorization (req (ex_world ex_acs_request))) \<and>
            \<not> truthy (accessToken ex_handshake_state)"
    by simp
  have h9: "shield_samlAuthenticate (client ex_options) (calls_of (trace (ex_world ex_acs_request)))
              [''req-1''] ''PHNhbWw+'' = Inr \<lparr>access_token = ''A'', refresh_token = ''R''\<rparr>"
    by simp
  from saml_response_sp_initiated [OF h1 h2 h3 h4 h5 h6 h7, of ex_options
      "\<lparr>access_token = ''A'', refresh_token = ''R''\<rparr>"] h8 h9
  have "calls_of (trace (snd (authenticate ex_options (Some ex_handshake_state)
          (ex_world ex_acs_request)))) =
        calls_of (trace (ex_world ex_acs_request)) @ [SamlAuthenticate [''req-1''] ''PHNhbWw+'']"
    and "fst (authenticate ex_options (Some ex_handshake_state) (ex_world ex_acs_request)) =
       Redirect ''/app/home''
         (Some \<lparr>requestId = None, nextURL = None, accessToken = Some ''A'',
                refreshToken = Some ''R''\<rparr>)"
    by simp_all
  with h1 h2 h3 h4 h5 h6 h7 show ?thesis by simp
qed

text \<open>
  Claim C6. The classifier \<open>isAccessTokenExpiredError\<close> holds of an error \<open>e\<close> if
  and only if its status code is 401, or its status code is 500 and
  \<^verbatim>\<open>e.body.error.reason\<close> is \<^verbatim>\<open>token document is missing and must be present\<close>; and
  when the state strategy has failed with \<open>e\<close>, \<open>authenticate\<close> goes on to the refresh
  strategy exactly under that condition, and otherwise keeps the failure.
\<close>

theorem token_expired_classifier:
  "(isAccessTokenExpiredError (Some e) \<longleftrightarrow>
      statusCode e = Some 401 \<or>
      (statusCode e = Some 500 \<and>
       error_reason e = Some ''token document is missing and must be present''))
   \<and> (fst (authenticateViaState options s w) = Failed e \<longrightarrow>
        state_stage options (Some s) (NotHandled, w) =
          (if statusCode e = Some 401 \<or>
              (statusCode e = Some 500 \<and>
               error_reason e = Some ''token document is missing and must be present'')
           then authenticateViaRefreshToken options s (snd (authenticateViaState options s w))
           else authenticateViaState options s w))"
proof -
  have classifier: "isAccessTokenExpiredError (Some e) \<longleftrightarrow>
      statusCode e = Some 401 \<or>
      (statusCode e = Some 500 \<and>
       error_reason e = Some ''token document is missing and must be present'')"
    by (simp add: isAccessTokenExpiredError_def getErrorStatusCode_def error_reason_def Let_def
          split: option.splits)
  have "state_stage options (Some s) (NotHandled, w) =
          (if isAccessTokenExpiredError (Some e)
           then authenticateViaRefreshToken options s (snd (authenticateViaState options s w))
           else authenticateViaState options s w)"
    if "fst (authenticateViaState options s w) = Failed e"
  proof -
    obtain r w' where rw: "authenticateViaState options s w = (r, w')"
      by (cases "authenticateViaState options s w")
    with that have "r = Failed e" by simp
    with rw show ?thesis by (simp add: state_stage_def)
  qed
  with classifier show ?thesis by simp
qed

text \<open>
  Claim C6, witness: a 401 and the 500 with the reason are expired tokens, a plain 500 is
  not; the session with the token \<^verbatim>\<open>expired\<close> fails with 401 in the state strategy
  and is refreshed (spec scenario 5).
\<close>

theorem token_expired_classifier_witness:
  "isAccessTokenExpiredError (Some (error_with_status 401))
   \<and> isAccessTokenExpiredError (Some ex_missing_token_document)
   \<and> \<not> isAccessTokenExpiredError (Some (error_with_status 500))
   \<and> fst (authenticateViaState ex_options (ex_state (Some ''expired'') (Some ''R''))
        (ex_world ex_request)) = Failed (error_with_status 401)
   \<and> state_stage ex_options (Some (ex_state (Some ''expired'') (Some ''R'')))
        (NotHandled, ex_world ex_request) =
       authenticateViaRefreshToken ex_options (ex_state (Some ''expired'') (Some ''R''))
         (snd (authenticateViaState ex_options (ex_state (Some ''expired'') (Some ''R''))
           (ex_world ex_request)))"
proof -
  have h: "fst (authenticateViaState ex_options (ex_state (Some ''expired'') (Some ''R''))
        (ex_world ex_request)) = Failed (error_with_status 401)"
    by (simp add: authenticateViaState_token [of _ "''expired''"])
  have r: "error_reason ex_missing_token_document =
             Some ''token document is missing and must be present''"
      "statusCode ex_missing_token_document = Some 500"
    by (simp_all add: ex_missing_token_document_def error_reason_def)
  have n: "error_reason (error_with_status 500) = None"
    by (simp add: error_reason_def)
  show ?thesis
    using token_expired_classifier [of "error_with_status 401" ex_options
        "ex_state (Some ''expired'') (Some ''R'')" "ex_world ex_request"]
      token_expired_classifier [of ex_missing_token_document ex_options
        "ex_state (Some ''expired'') (Some ''R'')" "ex_world ex_request"]
      token_expired_classifier [of "error_with_status 500" ex_options
        "ex_state (Some ''expired'') (Some ''R'')" "ex_world ex_request"]
      h r n
    by simp
qed

text \<open>
  Claim C7. When the refresh strategy fails with an error \<open>err\<close> (thrown by
  \<^verbatim>\<open>getAccessToken\<close> or by the call that carries the new token), the injected header is
  removed, and then: if the status code of \<open>err\<close> is 400 and the request can be
  redirected, the strategy falls through to the handshake strategy, which gets the request
  without the header; if it is 400 and the request cannot be redirected, the result is
  \<open>Failed (badRequest "Both access and refresh tokens are expired.")\<close>; for any other
  error the result is \<open>Failed err\<close>.
\<close>

theorem refresh_failure_outcomes:
  assumes "refreshToken s = Some t" and "t \<noteq> []" and "refresh_fails_with options t w0 err"
  shows "headers_authorization (req (snd (authenticateViaRefreshToken options s w0))) = None
         \<and> (statusCode err = Some 400 \<and> canRedirectRequest (req w0) \<longrightarrow>
              authenticateViaRefreshToken options s w0 =
                authenticateViaHandshake options
                  (log ''Both access and refresh tokens are expired. Re-initiating SAML handshake.''
                    (delete_authorization
                      (log (''Failed to refresh access token: '' @ message err)
                        (snd (refresh_try options t (log ''Trying to refresh access token.'' w0)))))))
         \<and> (statusCode err = Some 400 \<and> \<not> canRedirectRequest (req w0) \<longrightarrow>
              fst (authenticateViaRefreshToken options s w0) =
                Failed (badRequest ''Both access and refresh tokens are expired.''))
         \<and> (statusCode err \<noteq> Some 400 \<longrightarrow>
              fst (authenticateViaRefreshToken options s w0) = Failed err)"
  unfolding refresh_token_failure [OF assms]
  by (simp add: refresh_catch_header)
    (simp add: refresh_catch_def Let_def getErrorStatusCode_def refresh_try_req)

text \<open>
  Claim C7, witness: the backend rejects the refresh token \<^verbatim>\<open>stale\<close> with 400, on an
  AJAX request (spec scenario 6) and on a request that can be redirected.
\<close>

theorem refresh_failure_outcomes_witness:
  "refreshToken (ex_state (Some ''expired'') (Some ''stale'')) = Some ''stale'' \<and> ''stale'' \<noteq> []
   \<and> refresh_fails_with ex_options ''stale'' (ex_world ex_request) (error_with_status 400)
   \<and> headers_authorization (req (snd (authenticateViaRefreshToken ex_options
        (ex_state (Some ''expired'') (Some ''stale'')) (ex_world ex_request)))) = None
   \<and> fst (authenticateViaRefreshToken ex_options (ex_state (Some ''expired'') (Some ''stale''))
        (ex_world ex_request)) = Failed (badRequest ''Both access and refresh tokens are expired.'')
   \<and> refresh_fails_with ex_options ''stale'' (ex_world (ex_request\<lparr>is_ajax := False\<rparr>))
        (error_with_status 400)
   \<and> fst (authenticateViaRefreshToken ex_options (ex_state (Some ''expired'') (Some ''stale''))
        (ex_world (ex_request\<lparr>is_ajax := False\<rparr>))) =
       Redirect ''https://idp/sso''
         (Some \<lparr>requestId = Some ''req-1'', nextURL = Some ''/kbn/app/home'',
                accessToken = None, refreshToken = None\<rparr>)"
proof -
  let ?s = "ex_state (Some ''expired'') (Some ''stale'')"
  let ?browser = "ex_world (ex_request\<lparr>is_ajax := False\<rparr>)"
  have h1: "refreshToken ?s = Some ''stale''"
    by simp
  have h2: "''stale'' \<noteq> []" by simp
  have h3: "refresh_fails_with ex_options ''stale'' (ex_world ex_request) (error_with_status 400)"
    by (simp add: refresh_fails_with_def)
  have h4: "refresh_fails_with ex_options ''stale'' ?browser (error_with_status 400)"
    by (simp add: refresh_fails_with_def)
  have h5: "canRedirectRequest (req ?browser)"
    by (simp add: canRedirectRequest_def)
  from refresh_failure_outcomes [OF h1 h2 h3]
  have ajax: "headers_authorization (req (snd (authenticateViaRefreshToken ex_options ?s
                (ex_world ex_request)))) = None"
    "fst (authenticateViaRefreshToken ex_options ?s (ex_world ex_request)) =
       Failed (badRequest ''Both access and refresh tokens are expired.'')"
    by simp_all
  from refresh_failure_outcomes [OF h1 h2 h4] h5
  have "authenticateViaRefreshToken ex_options ?s ?browser =
          authenticateViaHandshake ex_options
            (log ''Both access and refresh tokens are expired. Re-initiating SAML handshake.''
              (delete_authorization
                (log (''Failed to refresh access token: '' @ message (error_with_status 400))
                  (snd (refresh_try ex_options ''stale''
                    (log ''Trying to refresh access token.'' ?browser))))))"
    by simp
  then have "fst (authenticateViaRefreshToken ex_options ?s ?browser) =
       Redirect ''https://idp/sso''
         (Some \<lparr>requestId = Some ''req-1'', nextURL = Some ''/kbn/app/home'',
                accessToken = None, refreshToken = None\<rparr>)"
    using h5
    by (simp add: handshake_redirect [where resp = "\<lparr>prepare_id = ''req-1'', prepare_redirect = ''https://idp/sso''\<rparr>"]
          refresh_try_req refresh_try_unchanged ex_request_def)
  with ajax h1 h2 h3 h4 show ?thesis by simp
qed

text \<open>
  Claim C9. When \<open>deauthenticate\<close> reaches the backend (the state has an access token
  or the query carries a \<^verbatim>\<open>SAMLRequest\<close>), it makes one call, \<^verbatim>\<open>samlInvalidate\<close>
  for a \<^verbatim>\<open>SAMLRequest\<close> query and \<^verbatim>\<open>samlLogout\<close> otherwise; on a response whose
  \<^verbatim>\<open>redirect\<close> is not null the result is \<open>Redirect redirect\<close>, on any other response
  \<open>Redirect "/logged_out"\<close>, and when the call throws \<open>err\<close> it is \<open>Failed err\<close>.
\<close>

theorem deauthenticate_outcomes:
  assumes "truthy (state_accessToken state) \<or> isSAMLRequestQuery (query (req w0))"
  shows "fst (deauthenticate options state w0) =
           (case (if isSAMLRequestQuery (query (req w0))
                  then shield_samlInvalidate (client options) (calls_of (trace w0))
                         (case url_search (req w0) of None \<Rightarrow> [] | Some search \<Rightarrow> drop 1 search)
                         (getACS options)
                  else shield_samlLogout (client options) (calls_of (trace w0))
                         (state_accessToken state) (state_refreshToken state)) of
              Inr resp \<Rightarrow>
                (case logout_redirect resp of
                   Some redirect \<Rightarrow> DeauthRedirect redirect
                 | None \<Rightarrow> DeauthRedirect ''/logged_out'')
            | Inl err \<Rightarrow> DeauthFailed err)
         \<and> calls_of (trace (snd (deauthenticate options state w0))) =
             calls_of (trace w0) @
               [if isSAMLRequestQuery (query (req w0))
                then SamlInvalidate
                       (case url_search (req w0) of None \<Rightarrow> [] | Some search \<Rightarrow> drop 1 search)
                       (getACS options)
                else SamlLogout (state_accessToken state) (state_refreshToken state)]"
  using assms
  by (auto simp add: deauthenticate_def callLogout_def Let_def samlInvalidate_def samlLogout_def
        split: sum.splits option.splits)

text \<open>
  Claim C9, witness: a logout by the user whose backend response has no redirect (spec
  scenario 8), and a logout the Identity Provider initiates (spec scenario 7).
\<close>

theorem deauthenticate_outcomes_witness:
  "(truthy (state_accessToken (Some (ex_state (Some ''A'') (Some ''R''))))
      \<or> isSAMLRequestQuery (query (req (ex_world ex_request))))
   \<and> fst (deauthenticate ex_options (Some (ex_state (Some ''A'') (Some ''R''))) (ex_world ex_request))
       = DeauthRedirect ''/logged_out''
   \<and> calls_of (trace (snd (deauthenticate ex_options (Some (ex_state (Some ''A'') (Some ''R'')))
        (ex_world ex_request)))) = [SamlLogout (Some ''A'') (Some ''R'')]
   \<and> (truthy (state_accessToken None) \<or> isSAMLRequestQuery (query (req (ex_world ex_slo_request))))
   \<and> fst (deauthenticate ex_options None (ex_world ex_slo_request)) = DeauthRedirect ''https://idp/slo''
   \<and> calls_of (trace (snd (deauthenticate ex_options None (ex_world ex_slo_request)))) =
       [SamlInvalidate ''SAMLRequest=PHNsbz4%3D&SigAlg=rsa''
          ''https://kibana:5601/kbn/api/security/v1/saml'']"
proof -
  have h1: "truthy (state_accessToken (Some (ex_state (Some ''A'') (Some ''R''))))
      \<or> isSAMLRequestQuery (query (req (ex_world ex_request)))"
    by (simp add: state_accessToken_def)
  have h2: "truthy (state_accessToken None) \<or> isSAMLRequestQuery (query (req (ex_world ex_slo_request)))"
    by (simp add: isSAMLRequestQuery_def)
  have acs: "getACS ex_options = ''https://kibana:5601/kbn/api/security/v1/saml''"
    by (simp add: getACS_def ex_options_def string_eval)
  show ?thesis
    using deauthenticate_outcomes [OF h1, of ex_options] deauthenticate_outcomes [OF h2, of ex_options]
      h1 h2
    by (simp add: state_accessToken_def state_refreshToken_def isSAMLRequestQuery_def acs)
qed

text \<open>
  Claim C4, at the input where the code breaks it. The claim: whenever \<open>authenticate\<close>
  returns \<open>NotHandled\<close> or \<open>Failed\<close>, \<^verbatim>\<open>request.headers.authorization\<close> on
  return equals its value on entry. A request whose header is the empty string passes the
  header strategy as if it had none; the state strategy overwrites the header, the backend
  rejects the token with 403, and the \<^verbatim>\<open>catch\<close> branch deletes the header, on the
  ground that it "hasn't been defined before": the result is \<open>Failed\<close> and the header
  is absent, not the empty string it was on entry. On every other input the header is as it
  was on entry (\<open>authenticate_header_neutral\<close>).
\<close>

theorem empty_header_not_restored:
  "headers_authorization (req (ex_world (ex_request\<lparr>headers_authorization := Some []\<rparr>))) = Some []
   \<and> fst (authenticate ex_options (Some (ex_state (Some ''B'') None))
        (ex_world (ex_request\<lparr>headers_authorization := Some []\<rparr>))) = Failed (error_with_status 403)
   \<and> headers_authorization (req (snd (authenticate ex_options (Some (ex_state (Some ''B'') None))
        (ex_world (ex_request\<lparr>headers_authorization := Some []\<rparr>))))) = None
   \<and> headers_authorization (req (snd (authenticate ex_options (Some (ex_state (Some ''B'') None))
        (ex_world (ex_request\<lparr>headers_authorization := Some []\<rparr>)))))
       \<noteq> headers_authorization (req (ex_world (ex_request\<lparr>headers_authorization := Some []\<rparr>)))"
proof -
  let ?w = "ex_world (ex_request\<lparr>headers_authorization := Some []\<rparr>)"
  have h1: "\<not> truthy (headers_authorization (req ?w))" by simp
  have h2: "accessToken (ex_state (Some ''B'') None) = Some ''B''" by simp
  have h3: "''B'' \<noteq> []" by simp
  have h4: "shield_authenticate (client ex_options) (calls_of (trace ?w))
              ((req ?w)\<lparr>headers_authorization := Some (''Bearer '' @ ''B'')\<rparr>) =
            Inl (error_with_status 403)"
    by simp
  from authenticate_state_rejected [OF h1 h2 h3 h4 rejected_token_not_expired]
  show ?thesis by simp
qed

end
